theory Spec2Isabelle
  imports Main "HOL-Library.Char_ord" "HOL-Library.List_Lexorder"
begin

chapter \<open>A key-management service: envelope, sealing, key life cycle, audit signatures\<close>

text \<open>
  The Python modules \<^verbatim>\<open>utils/crypto.py\<close>, \<^verbatim>\<open>utils/rotation.py\<close>, \<^verbatim>\<open>utils/audit.py\<close>,
  \<^verbatim>\<open>routers/keys.py\<close> and \<^verbatim>\<open>routers/encrypt.py\<close> as functions of HOL, followed by the
  properties of the service that hold of them and by the inputs at which others fail.
\<close>

section \<open>Values shared by all modules\<close>

text \<open>
  Python \<^verbatim>\<open>bytes\<close> are lists of 8-bit characters. A Python \<^verbatim>\<open>str\<close> is represented by
  its UTF-8 encoding, so \<^verbatim>\<open>s.encode('utf-8')\<close> is the identity and \<^verbatim>\<open>b.decode('utf-8')\<close>
  is the identity on the byte strings the codec accepts and raises on the others; a
  \<^verbatim>\<open>str\<close> that has no UTF-8 encoding (a lone surrogate) is outside the model.
  An exception is its class name together with \<^verbatim>\<open>str(e)\<close>. A naive \<^verbatim>\<open>datetime\<close> is the
  number of microseconds since \<^verbatim>\<open>datetime.min\<close>, the first instant of the year 1; a
  \<^verbatim>\<open>timedelta\<close> is a number of microseconds. The bytes that the operating system's random
  source hands out during one call are a function from positions to bytes.
\<close>

type_synonym bytes = string
type_synonym datetime = int
type_synonym entropy = "nat \<Rightarrow> char"
type_synonym private_key = bytes

datatype exn = Exn (exn_class: string) (exn_str: string)

abbreviation ValueError :: "string \<Rightarrow> exn" where
  "ValueError m \<equiv> Exn ''ValueError'' m"

datatype http_exn = HTTPException (status_code: nat) (detail: string)

datatype hash_alg = sha256 | sha512

record config =
  MASTER_KEY :: bytes
  AUDIT_SECRET :: string

section \<open>The libraries the code calls\<close>

text \<open>
  The primitives of the \<^verbatim>\<open>cryptography\<close> package and of the Python standard library are
  not part of the repository. They are parameters of the model: a record with one field
  for every library function the code calls, and one for \<^verbatim>\<open>require_role\<close> of
  \<^verbatim>\<open>utils.jwt_auth\<close>, which returns the exception it raises, if any. A field returns \<open>Inl e\<close> where the library
  raises \<open>e\<close>. The two \<open>verify\<close> fields return \<open>False\<close> where the library raises
  anything at all, since the code catches every exception of that call. The field
  \<open>timedelta_overflow_text\<close> is the text of the \<^verbatim>\<open>OverflowError\<close> that
  \<^verbatim>\<open>timedelta(days=n)\<close> raises for an \<open>n\<close> out of range; the text depends on how far out
  \<open>n\<close> is.
\<close>

record lib =
  aes_gcm_encrypt :: "bytes \<Rightarrow> bytes \<Rightarrow> bytes \<Rightarrow> exn + (bytes \<times> bytes)"
  aes_gcm_decrypt :: "bytes \<Rightarrow> bytes \<Rightarrow> bytes \<Rightarrow> bytes \<Rightarrow> exn + bytes"
  aes_cbc_encrypt :: "bytes \<Rightarrow> bytes \<Rightarrow> bytes \<Rightarrow> exn + bytes"
  aes_cbc_decrypt :: "bytes \<Rightarrow> bytes \<Rightarrow> bytes \<Rightarrow> exn + bytes"
  pkcs7_pad :: "nat \<Rightarrow> bytes \<Rightarrow> bytes"
  pkcs7_unpad :: "nat \<Rightarrow> bytes \<Rightarrow> exn + bytes"
  chacha20poly1305_encrypt :: "bytes \<Rightarrow> bytes \<Rightarrow> bytes \<Rightarrow> exn + bytes"
  chacha20poly1305_decrypt :: "bytes \<Rightarrow> bytes \<Rightarrow> bytes \<Rightarrow> exn + bytes"
  hmac_digest :: "hash_alg \<Rightarrow> bytes \<Rightarrow> bytes \<Rightarrow> bytes"
  rsa_private_pem :: "entropy \<Rightarrow> nat \<Rightarrow> bytes"
  ec_private_pem :: "entropy \<Rightarrow> string \<Rightarrow> bytes"
  ed25519_private_pem :: "entropy \<Rightarrow> bytes"
  load_pem_private_key :: "bytes \<Rightarrow> exn + private_key"
  rsa_oaep_encrypt :: "private_key \<Rightarrow> entropy \<Rightarrow> bytes \<Rightarrow> exn + bytes"
  rsa_oaep_decrypt :: "private_key \<Rightarrow> bytes \<Rightarrow> exn + bytes"
  ecdsa_sign :: "private_key \<Rightarrow> entropy \<Rightarrow> bytes \<Rightarrow> exn + bytes"
  ecdsa_verify :: "private_key \<Rightarrow> bytes \<Rightarrow> bytes \<Rightarrow> bool"
  ed25519_sign :: "private_key \<Rightarrow> bytes \<Rightarrow> exn + bytes"
  ed25519_verify :: "private_key \<Rightarrow> bytes \<Rightarrow> bytes \<Rightarrow> bool"
  utf8_valid :: "bytes \<Rightarrow> bool"
  utf8_reason :: "bytes \<Rightarrow> string"
  b64encode :: "bytes \<Rightarrow> string"
  b64decode :: "string \<Rightarrow> exn + bytes"
  encode_basestring_ascii :: "string \<Rightarrow> string"
  isoformat :: "datetime \<Rightarrow> string"
  timedelta_overflow_text :: "int \<Rightarrow> string"
  require_role :: "string \<Rightarrow> string list \<Rightarrow> http_exn option"

section \<open>utils/crypto.py\<close>

definition token_bytes :: "entropy \<Rightarrow> nat \<Rightarrow> bytes" where
  "token_bytes rnd n = map rnd [0..<n]"

definition decode_utf8 :: "lib \<Rightarrow> bytes \<Rightarrow> exn + string" where
  "decode_utf8 L b =
     (if utf8_valid L b then Inr b else Inl (Exn ''UnicodeDecodeError'' (utf8_reason L b)))"

text \<open>
  \<^verbatim>\<open>buf.split(sep, 1)\<close> unpacked into two names: the parts before and after the first
  occurrence of \<open>sep\<close>; \<open>None\<close> where the unpacking raises because \<open>sep\<close> does not
  occur. Every separator of the code is non-empty.
\<close>

fun split_once :: "bytes \<Rightarrow> bytes \<Rightarrow> (bytes \<times> bytes) option" where
  "split_once sep [] = None"
| "split_once sep (x # xs) =
     (if take (length sep) (x # xs) = sep then Some ([], drop (length sep) (x # xs))
      else (case split_once sep xs of
              None \<Rightarrow> None
            | Some (before, rest) \<Rightarrow> Some (x # before, rest)))"

definition generate_key :: "lib \<Rightarrow> entropy \<Rightarrow> string \<Rightarrow> exn + bytes" where
  "generate_key L rnd key_type =
     (if key_type = ''AES128GCM'' then Inr (token_bytes rnd 16)
      else if key_type = ''AES256GCM'' then Inr (token_bytes rnd 32)
      else if key_type = ''AES256CBC'' then Inr (token_bytes rnd 32)
      else if key_type = ''ChaCha20Poly1305'' then Inr (token_bytes rnd 32)
      else if key_type = ''HMAC256'' then Inr (token_bytes rnd 32)
      else if key_type = ''HMAC512'' then Inr (token_bytes rnd 64)
      else if key_type = ''RSA2048'' then Inr (rsa_private_pem L rnd 2048)
      else if key_type = ''RSA4096'' then Inr (rsa_private_pem L rnd 4096)
      else if key_type = ''ECC256'' then Inr (ec_private_pem L rnd ''secp256r1'')
      else if key_type = ''ECC384'' then Inr (ec_private_pem L rnd ''secp384r1'')
      else if key_type = ''Ed25519'' then Inr (ed25519_private_pem L rnd)
      else if key_type = ''RSA'' then Inr (rsa_private_pem L rnd 2048)
      else Inl (ValueError (''Unsupported key type: '' @ key_type)))"

definition encrypt_key_with_master :: "lib \<Rightarrow> config \<Rightarrow> entropy \<Rightarrow> bytes \<Rightarrow> exn + bytes" where
  "encrypt_key_with_master L cfg rnd key_data =
     (let nonce = token_bytes rnd 12 in
      case aes_gcm_encrypt L (take 32 (MASTER_KEY cfg)) nonce key_data of
        Inl e \<Rightarrow> Inl e
      | Inr (ciphertext, tag) \<Rightarrow> Inr (nonce @ tag @ ciphertext))"

definition decrypt_key_with_master :: "lib \<Rightarrow> config \<Rightarrow> bytes \<Rightarrow> exn + bytes" where
  "decrypt_key_with_master L cfg encrypted_data =
     (let nonce = take 12 encrypted_data;
          tag = take 16 (drop 12 encrypted_data);
          ciphertext = drop 28 encrypted_data
      in aes_gcm_decrypt L (take 32 (MASTER_KEY cfg)) nonce tag ciphertext)"

definition encrypt_with_key :: "lib \<Rightarrow> entropy \<Rightarrow> string \<Rightarrow> bytes \<Rightarrow> string \<Rightarrow> exn + bytes" where
  "encrypt_with_key L rnd plaintext key_data key_type =
     (let plaintext_bytes = plaintext in
      if key_type = ''AES128GCM'' \<or> key_type = ''AES256GCM'' then
        (let nonce = token_bytes rnd 12 in
         case aes_gcm_encrypt L key_data nonce plaintext_bytes of
           Inl e \<Rightarrow> Inl e
         | Inr (ciphertext, tag) \<Rightarrow> Inr (nonce @ tag @ ciphertext))
      else if key_type = ''AES256CBC'' then
        (let iv = token_bytes rnd 16;
             padded_data = pkcs7_pad L 128 plaintext_bytes in
         case aes_cbc_encrypt L key_data iv padded_data of
           Inl e \<Rightarrow> Inl e
         | Inr ciphertext \<Rightarrow> Inr (iv @ ciphertext))
      else if key_type = ''ChaCha20Poly1305'' then
        (let nonce = token_bytes rnd 12 in
         case chacha20poly1305_encrypt L key_data nonce plaintext_bytes of
           Inl e \<Rightarrow> Inl e
         | Inr ciphertext \<Rightarrow> Inr (nonce @ ciphertext))
      else if key_type = ''HMAC256'' \<or> key_type = ''HMAC512'' then
        (let digest = (if key_type = ''HMAC256''
                       then hmac_digest L sha256 key_data plaintext_bytes
                       else hmac_digest L sha512 key_data plaintext_bytes)
         in Inr (plaintext_bytes @ ''|HMAC|'' @ digest))
      else if key_type = ''RSA2048'' \<or> key_type = ''RSA4096'' then
        (case load_pem_private_key L key_data of
           Inl e \<Rightarrow> Inl e
         | Inr private_key \<Rightarrow> rsa_oaep_encrypt L private_key rnd plaintext_bytes)
      else if key_type = ''ECC256'' \<or> key_type = ''ECC384'' then
        (case load_pem_private_key L key_data of
           Inl e \<Rightarrow> Inl e
         | Inr private_key \<Rightarrow>
             (case ecdsa_sign L private_key rnd plaintext_bytes of
                Inl e \<Rightarrow> Inl e
              | Inr signature \<Rightarrow> Inr (plaintext_bytes @ ''|ECC|'' @ signature)))
      else if key_type = ''Ed25519'' then
        (case load_pem_private_key L key_data of
           Inl e \<Rightarrow> Inl e
         | Inr private_key \<Rightarrow>
             (case ed25519_sign L private_key plaintext_bytes of
                Inl e \<Rightarrow> Inl e
              | Inr signature \<Rightarrow> Inr (plaintext_bytes @ ''|Ed25519|'' @ signature)))
      else if key_type = ''RSA'' then
        (case load_pem_private_key L key_data of
           Inl e \<Rightarrow> Inl e
         | Inr private_key \<Rightarrow> rsa_oaep_encrypt L private_key rnd plaintext_bytes)
      else Inl (ValueError (''Unsupported key type: '' @ key_type)))"

definition decrypt_with_key :: "lib \<Rightarrow> bytes \<Rightarrow> bytes \<Rightarrow> string \<Rightarrow> exn + string" where
  "decrypt_with_key L ciphertext key_data key_type =
     (if key_type = ''AES128GCM'' \<or> key_type = ''AES256GCM'' then
        (let nonce = take 12 ciphertext;
             tag = take 16 (drop 12 ciphertext);
             actual_ciphertext = drop 28 ciphertext in
         case aes_gcm_decrypt L key_data nonce tag actual_ciphertext of
           Inl e \<Rightarrow> Inl e
         | Inr plaintext_bytes \<Rightarrow> decode_utf8 L plaintext_bytes)
      else if key_type = ''AES256CBC'' then
        (let iv = take 16 ciphertext;
             actual_ciphertext = drop 16 ciphertext in
         case aes_cbc_decrypt L key_data iv actual_ciphertext of
           Inl e \<Rightarrow> Inl e
         | Inr padded_plaintext \<Rightarrow>
             (case pkcs7_unpad L 128 padded_plaintext of
                Inl e \<Rightarrow> Inl e
              | Inr plaintext_bytes \<Rightarrow> decode_utf8 L plaintext_bytes))
      else if key_type = ''ChaCha20Poly1305'' then
        (let nonce = take 12 ciphertext;
             actual_ciphertext = drop 12 ciphertext in
         case chacha20poly1305_decrypt L key_data nonce actual_ciphertext of
           Inl e \<Rightarrow> Inl e
         | Inr plaintext_bytes \<Rightarrow> decode_utf8 L plaintext_bytes)
      else if key_type = ''HMAC256'' \<or> key_type = ''HMAC512'' then
        (case split_once ''|HMAC|'' ciphertext of
           None \<Rightarrow> Inl (ValueError ''Invalid HMAC format'')
         | Some (plaintext_part, hmac_part) \<Rightarrow>
             (let expected_digest = (if key_type = ''HMAC256''
                                     then hmac_digest L sha256 key_data plaintext_part
                                     else hmac_digest L sha512 key_data plaintext_part)
              in if hmac_part \<noteq> expected_digest
                 then Inl (ValueError ''HMAC verification failed'')
                 else decode_utf8 L plaintext_part))
      else if key_type = ''RSA2048'' \<or> key_type = ''RSA4096'' then
        (case load_pem_private_key L key_data of
           Inl e \<Rightarrow> Inl e
         | Inr private_key \<Rightarrow>
             (case rsa_oaep_decrypt L private_key ciphertext of
                Inl e \<Rightarrow> Inl e
              | Inr plaintext_bytes \<Rightarrow> decode_utf8 L plaintext_bytes))
      else if key_type = ''ECC256'' \<or> key_type = ''ECC384'' then
        (case split_once ''|ECC|'' ciphertext of
           None \<Rightarrow> Inl (ValueError ''Invalid ECC signature format'')
         | Some (plaintext_part, signature_part) \<Rightarrow>
             (case load_pem_private_key L key_data of
                Inl e \<Rightarrow> Inl e
              | Inr private_key \<Rightarrow>
                  if ecdsa_verify L private_key signature_part plaintext_part
                  then decode_utf8 L plaintext_part
                  else Inl (ValueError ''ECC signature verification failed'')))
      else if key_type = ''Ed25519'' then
        (case split_once ''|Ed25519|'' ciphertext of
           None \<Rightarrow> Inl (ValueError ''Invalid Ed25519 signature format'')
         | Some (plaintext_part, signature_part) \<Rightarrow>
             (case load_pem_private_key L key_data of
                Inl e \<Rightarrow> Inl e
              | Inr private_key \<Rightarrow>
                  if ed25519_verify L private_key signature_part plaintext_part
                  then decode_utf8 L plaintext_part
                  else Inl (ValueError ''Ed25519 signature verification failed'')))
      else if key_type = ''RSA'' then
        (case load_pem_private_key L key_data of
           Inl e \<Rightarrow> Inl e
         | Inr private_key \<Rightarrow>
             (case rsa_oaep_decrypt L private_key ciphertext of
                Inl e \<Rightarrow> Inl e
              | Inr plaintext_bytes \<Rightarrow> decode_utf8 L plaintext_bytes))
      else Inl (ValueError (''Unsupported key type: '' @ key_type)))"

text \<open>
  The module body of \<^verbatim>\<open>utils/crypto.py\<close> that loads \<^verbatim>\<open>MASTER_KEY\<close>, as a function of the
  value of the environment variable (\<open>None\<close> when it is not set).
  \<^verbatim>\<open>bytes.fromhex\<close> skips ASCII white space between pairs of hexadecimal digits and raises
  on any other character and on an unpaired digit.
\<close>

definition is_space :: "char \<Rightarrow> bool" where
  "is_space c = (c \<in> set [CHR '' '', CHR 0x09, CHR 0x0A, CHR 0x0B, CHR 0x0C, CHR 0x0D])"

definition hex_value :: "char \<Rightarrow> nat option" where
  "hex_value c =
     (let n = (of_char c :: nat) in
      if 48 \<le> n \<and> n \<le> 57 then Some (n - 48)
      else if 97 \<le> n \<and> n \<le> 102 then Some (n - 87)
      else if 65 \<le> n \<and> n \<le> 70 then Some (n - 55)
      else None)"

fun bytes_fromhex :: "string \<Rightarrow> bytes option" where
  "bytes_fromhex [] = Some []"
| "bytes_fromhex [c] = (if is_space c then Some [] else None)"
| "bytes_fromhex (c # d # cs) =
     (if is_space c then bytes_fromhex (d # cs)
      else (case (hex_value c, hex_value d) of
              (Some hi, Some lo) \<Rightarrow>
                (case bytes_fromhex cs of
                   None \<Rightarrow> None
                 | Some bs \<Rightarrow> Some (char_of (16 * hi + lo) # bs))
            | _ \<Rightarrow> None))"

definition load_master_key :: "string option \<Rightarrow> exn + bytes" where
  "load_master_key env_value =
     (case env_value of
        None \<Rightarrow> Inl (ValueError ''MASTER_KEY environment variable must be set'')
      | Some s \<Rightarrow>
          if s = [] then Inl (ValueError ''MASTER_KEY environment variable must be set'')
          else (let key = (case bytes_fromhex s of Some b \<Rightarrow> b | None \<Rightarrow> take 32 s) in
                if length key < 32 then Inl (ValueError ''MASTER_KEY must be at least 32 bytes'')
                else Inr key))"

section \<open>utils/audit.py\<close>

definition load_audit_secret :: "string option \<Rightarrow> string" where
  "load_audit_secret env_value =
     (case env_value of None \<Rightarrow> ''audit-secret-key-change-this'' | Some s \<Rightarrow> s)"

subsection \<open>Importing the application (main.py)\<close>

text \<open>
  \<^verbatim>\<open>main.py\<close> imports the routers, which import both modules; an exception raised by a
  module body ends the process before a request is served. The result is the pair of
  module globals that every later call reads.
\<close>

definition startup :: "(string \<rightharpoonup> string) \<Rightarrow> exn + config" where
  "startup environ =
     (case load_master_key (environ ''MASTER_KEY'') of
        Inl e \<Rightarrow> Inl e
      | Inr key \<Rightarrow>
          Inr \<lparr>MASTER_KEY = key, AUDIT_SECRET = load_audit_secret (environ ''AUDIT_SECRET'')\<rparr>)"

subsection \<open>Signing and verifying audit rows\<close>

text \<open>Decimal and hexadecimal output, as \<^verbatim>\<open>str(int)\<close> and \<^verbatim>\<open>hexdigest()\<close> print them.\<close>

fun nat_repr :: "nat \<Rightarrow> string" where
  "nat_repr n =
     (if n < 10 then [char_of (48 + n)] else nat_repr (n div 10) @ [char_of (48 + n mod 10)])"

definition int_repr :: "int \<Rightarrow> string" where
  "int_repr i = (if i < 0 then ''-'' @ nat_repr (nat (- i)) else nat_repr (nat i))"

definition hex_digit :: "nat \<Rightarrow> char" where
  "hex_digit n = (if n < 10 then char_of (48 + n) else char_of (87 + n))"

definition hex_of_bytes :: "bytes \<Rightarrow> string" where
  "hex_of_bytes bs =
     concat (map (\<lambda>c. [hex_digit ((of_char c :: nat) div 16), hex_digit ((of_char c :: nat) mod 16)]) bs)"

text \<open>
  \<^verbatim>\<open>json.dumps(obj, sort_keys=True, separators=(',', ':'))\<close> on a flat dictionary whose
  values are \<^verbatim>\<open>None\<close>, integers or strings. The dictionary is the list of its items in
  insertion order.
\<close>

datatype json = JNull | JInt int | JStr string

definition json_of_int :: "int option \<Rightarrow> json" where
  "json_of_int v = (case v of None \<Rightarrow> JNull | Some i \<Rightarrow> JInt i)"

definition json_of_str :: "string option \<Rightarrow> json" where
  "json_of_str v = (case v of None \<Rightarrow> JNull | Some s \<Rightarrow> JStr s)"

fun join :: "string \<Rightarrow> string list \<Rightarrow> string" where
  "join sep [] = []"
| "join sep [x] = x"
| "join sep (x # y # ys) = x @ sep @ join sep (y # ys)"

definition json_value :: "lib \<Rightarrow> json \<Rightarrow> string" where
  "json_value L v =
     (case v of JNull \<Rightarrow> ''null'' | JInt i \<Rightarrow> int_repr i | JStr s \<Rightarrow> encode_basestring_ascii L s)"

definition json_dumps :: "lib \<Rightarrow> (string \<times> json) list \<Rightarrow> string" where
  "json_dumps L obj =
     ''{'' @ join '','' (map (\<lambda>(k, v). encode_basestring_ascii L k @ '':'' @ json_value L v)
                           (sort_key fst obj)) @ ''}''"

definition calculate_hmac :: "lib \<Rightarrow> config \<Rightarrow> (string \<times> json) list \<Rightarrow> string" where
  "calculate_hmac L cfg log_data =
     (let canonical_data = json_dumps L log_data;
          signature = hex_of_bytes (hmac_digest L sha256 (AUDIT_SECRET cfg) canonical_data)
      in signature)"

text \<open>
  A row of \<^verbatim>\<open>audit_logs\<close> and a row of \<^verbatim>\<open>crypto_keys\<close> (db.py). The primary key of an
  audit row is left out: the database assigns it and no code reads it. No column of
  \<^verbatim>\<open>audit_logs\<close> is declared \<^verbatim>\<open>nullable=False\<close>, so a stored audit row can hold
  \<^verbatim>\<open>NULL\<close>, read back as \<^verbatim>\<open>None\<close>, in any of them. A table is the list of its rows; a
  committed insert appends a row.
\<close>

record audit_log =
  user_id :: "int option"
  action :: "string option"
  resource_type :: "string option"
  resource_id :: "string option"
  ip_address :: "string option"
  user_agent :: "string option"
  status :: "string option"
  details :: "string option"
  hmac_signature :: "string option"
  timestamp :: "datetime option"

record crypto_key =
  row_id :: int
  name :: string
  key_type :: string
  encrypted_key :: bytes
  key_version :: int
  is_active :: bool
  is_revoked :: bool
  created_by :: int
  created_at :: datetime
  rotated_at :: "datetime option"
  revoked_at :: "datetime option"

record db =
  crypto_keys :: "crypto_key list"
  audit_logs :: "audit_log list"

text \<open>
  \<^verbatim>\<open>log_audit\<close>; its last argument is the value that \<^verbatim>\<open>datetime.utcnow()\<close> returns inside.
\<close>

definition log_audit ::
  "lib \<Rightarrow> config \<Rightarrow> db \<Rightarrow> int option \<Rightarrow> string \<Rightarrow> string \<Rightarrow> string option \<Rightarrow> string \<Rightarrow> string
     \<Rightarrow> string option \<Rightarrow> string option \<Rightarrow> datetime \<Rightarrow> db" where
  "log_audit L cfg d uid act rtype rid ip st det ua now =
     (let log_data =
            [(''user_id'', json_of_int uid),
             (''action'', JStr act),
             (''resource_type'', JStr rtype),
             (''resource_id'', json_of_str rid),
             (''ip_address'', JStr ip),
             (''status'', JStr st),
             (''details'', json_of_str det),
             (''user_agent'', json_of_str ua),
             (''timestamp'', JStr (isoformat L now))];
          signature = calculate_hmac L cfg log_data;
          row = \<lparr>user_id = uid, action = Some act, resource_type = Some rtype,
                 resource_id = rid, ip_address = Some ip, user_agent = ua, status = Some st,
                 details = det, hmac_signature = Some signature, timestamp = Some now\<rparr>
      in d\<lparr>audit_logs := audit_logs d @ [row]\<rparr>)"

text \<open>
  \<^verbatim>\<open>hmac.compare_digest(a, b)\<close> where \<open>a\<close> is a \<^verbatim>\<open>str\<close> and \<open>b\<close> a \<^verbatim>\<open>str\<close> or
  \<^verbatim>\<open>None\<close>: it raises \<^verbatim>\<open>TypeError\<close> when \<open>b\<close> is \<^verbatim>\<open>None\<close> and when one of the two
  strings has a character outside ASCII, and is equality otherwise. In the UTF-8
  encoding the characters outside ASCII are those with a byte of 128 or more.
\<close>

definition is_ascii :: "string \<Rightarrow> bool" where
  "is_ascii s = list_all (\<lambda>c. (of_char c :: nat) < 128) s"

definition quoted :: "string \<Rightarrow> string" where
  "quoted s = [CHR 0x27] @ s @ [CHR 0x27]"

definition compare_digest :: "string \<Rightarrow> string option \<Rightarrow> exn + bool" where
  "compare_digest a b =
     (case b of
        None \<Rightarrow>
          Inl (Exn ''TypeError''
                 (''unsupported operand types(s) or combination of types: '' @ quoted ''str''
                    @ '' and '' @ quoted ''NoneType''))
      | Some s \<Rightarrow>
          if is_ascii a \<and> is_ascii s then Inr (a = s)
          else Inl (Exn ''TypeError''
                      ''comparing strings with non-ASCII characters is not supported''))"

text \<open>
  \<^verbatim>\<open>verify_audit_log\<close>. The dictionary is built first, and its last entry calls
  \<^verbatim>\<open>isoformat\<close> on the stored timestamp, which raises \<^verbatim>\<open>AttributeError\<close> on \<^verbatim>\<open>None\<close>.
\<close>

definition verify_audit_log :: "lib \<Rightarrow> config \<Rightarrow> audit_log \<Rightarrow> exn + bool" where
  "verify_audit_log L cfg log =
     (case timestamp log of
        None \<Rightarrow>
          Inl (Exn ''AttributeError''
                 (quoted ''NoneType'' @ '' object has no attribute '' @ quoted ''isoformat''))
      | Some t \<Rightarrow>
          (let log_data =
                 [(''user_id'', json_of_int (user_id log)),
                  (''action'', json_of_str (action log)),
                  (''resource_type'', json_of_str (resource_type log)),
                  (''resource_id'', json_of_str (resource_id log)),
                  (''ip_address'', json_of_str (ip_address log)),
                  (''status'', json_of_str (status log)),
                  (''details'', json_of_str (details log)),
                  (''user_agent'', json_of_str (user_agent log)),
                  (''timestamp'', JStr (isoformat L t))];
               expected_signature = calculate_hmac L cfg log_data
           in compare_digest expected_signature (hmac_signature log)))"

section \<open>utils/rotation.py\<close>

definition timedelta_days :: "int \<Rightarrow> int" where
  "timedelta_days n = n * 86400000000"

text \<open>
  The range of \<^verbatim>\<open>datetime\<close>: from \<^verbatim>\<open>datetime.min\<close>, which is 0001-01-01T00:00:00, to
  \<^verbatim>\<open>datetime.max\<close>, which is 9999-12-31T23:59:59.999999, the last microsecond of the
  3652059 days of the calendar.
\<close>

definition datetime_min :: datetime where
  "datetime_min = 0"

definition datetime_max :: datetime where
  "datetime_max = 3652059 * 86400000000 - 1"

text \<open>
  \<^verbatim>\<open>timedelta(days=n)\<close> raises \<^verbatim>\<open>OverflowError\<close> when \<open>n\<close> has a magnitude above
  999999999, and \<^verbatim>\<open>d - delta\<close> raises it when the result is not in the range of
  \<^verbatim>\<open>datetime\<close>.
\<close>

definition timedelta :: "lib \<Rightarrow> int \<Rightarrow> exn + int" where
  "timedelta L days =
     (if 999999999 < \<bar>days\<bar> then Inl (Exn ''OverflowError'' (timedelta_overflow_text L days))
      else Inr (timedelta_days days))"

definition datetime_sub :: "datetime \<Rightarrow> int \<Rightarrow> exn + datetime" where
  "datetime_sub d delta =
     (if d - delta < datetime_min \<or> datetime_max < d - delta
      then Inl (Exn ''OverflowError'' ''date value out of range'')
      else Inr (d - delta))"

text \<open>
  \<^verbatim>\<open>should_rotate_key\<close>; the second argument is the reading of \<^verbatim>\<open>datetime.utcnow()\<close>.
  The function returns for a revoked or inactive record before it computes anything.
\<close>

definition should_rotate_key :: "lib \<Rightarrow> datetime \<Rightarrow> crypto_key \<Rightarrow> int \<Rightarrow> exn + bool" where
  "should_rotate_key L now key rotation_days =
     (if is_revoked key \<or> \<not> is_active key then Inr False
      else (let last_rotation = (case rotated_at key of Some t \<Rightarrow> t | None \<Rightarrow> created_at key)
            in case timedelta L rotation_days of
                 Inl e \<Rightarrow> Inl e
               | Inr delta \<Rightarrow>
                   (case datetime_sub now delta of
                      Inl e \<Rightarrow> Inl e
                    | Inr rotation_threshold \<Rightarrow> Inr (last_rotation < rotation_threshold))))"

section \<open>The request handlers\<close>

text \<open>
  What a handler has besides its arguments and the database: the content of the verified
  token (\<^verbatim>\<open>verify_token\<close> is not part of the sources; a request whose token it rejects
  never reaches the code modelled here), the successive readings of
  \<^verbatim>\<open>datetime.utcnow()\<close> during the request, and the random bytes handed out to each
  successive call that draws some. A handler returns the response or the
  \<^verbatim>\<open>HTTPException\<close> it raises, together with the database it leaves behind. Failures of
  the database itself are not modelled.
\<close>

record request =
  sub :: int
  role :: string
  utcnow :: "nat \<Rightarrow> datetime"
  urandom :: "nat \<Rightarrow> entropy"

datatype key_response =
  KeyResponse int string string int bool bool int datetime "datetime option" "datetime option"

datatype encrypt_response = EncryptResponse string int int

datatype decrypt_response = DecryptResponse string int int

definition response_of_key :: "crypto_key \<Rightarrow> key_response" where
  "response_of_key k =
     KeyResponse (row_id k) (name k) (key_type k) (key_version k) (is_active k) (is_revoked k)
       (created_by k) (created_at k) (rotated_at k) (revoked_at k)"

text \<open>Writing a changed row back: the first row with the same primary key is replaced.\<close>

fun update_row :: "crypto_key \<Rightarrow> crypto_key list \<Rightarrow> crypto_key list" where
  "update_row k' [] = []"
| "update_row k' (k # ks) = (if row_id k = row_id k' then k' # ks else k # update_row k' ks)"

subsection \<open>utils/rotation.py, continued\<close>

text \<open>
  \<^verbatim>\<open>rotate_key_if_needed\<close> calls \<^verbatim>\<open>should_rotate_key\<close> before its \<^verbatim>\<open>try\<close> block, so an
  exception of that call leaves the function; an exception inside the block is logged and
  the function returns \<^verbatim>\<open>False\<close>.
\<close>

definition rotate_key_if_needed ::
  "lib \<Rightarrow> config \<Rightarrow> request \<Rightarrow> db \<Rightarrow> crypto_key \<Rightarrow> int \<Rightarrow> exn + (bool \<times> db)" where
  "rotate_key_if_needed L cfg rq d key rotation_days =
     (case should_rotate_key L (utcnow rq 0) key rotation_days of
        Inl e \<Rightarrow> Inl e
      | Inr due \<Rightarrow>
          if \<not> due then Inr (False, d)
          else (case generate_key L (urandom rq 0) (key_type key) of
                  Inl e \<Rightarrow> Inr (False, d)
                | Inr raw_key \<Rightarrow>
                    (case encrypt_key_with_master L cfg (urandom rq 1) raw_key of
                       Inl e \<Rightarrow> Inr (False, d)
                     | Inr wrapped \<Rightarrow>
                         (let key' = key\<lparr>encrypted_key := wrapped,
                                          key_version := key_version key + 1,
                                          rotated_at := Some (utcnow rq 1)\<rparr>
                          in Inr (True, d\<lparr>crypto_keys := update_row key' (crypto_keys d)\<rparr>)))))"

subsection \<open>routers/keys.py\<close>

definition supported_key_types :: "string list" where
  "supported_key_types =
     [''AES128GCM'', ''AES256GCM'', ''AES256CBC'', ''ChaCha20Poly1305'',
      ''RSA'', ''RSA2048'', ''RSA4096'',
      ''ECC256'', ''ECC384'', ''Ed25519'',
      ''HMAC256'', ''HMAC512'']"

text \<open>
  \<^verbatim>\<open>create_key\<close>; \<open>new_id\<close> is the primary key that the database assigns to the new row,
  whose other columns take the defaults of \<^verbatim>\<open>db.py\<close>.
\<close>

definition create_key ::
  "lib \<Rightarrow> config \<Rightarrow> request \<Rightarrow> int \<Rightarrow> string \<Rightarrow> string \<Rightarrow> db \<Rightarrow> (http_exn + key_response) \<times> db" where
  "create_key L cfg rq new_id key_name kt d =
     (case require_role L (role rq) [''admin''] of
        Some denied \<Rightarrow> (Inl denied, d)
      | None \<Rightarrow>
          if kt \<notin> set supported_key_types
          then (Inl (HTTPException 400
                  (''Invalid key type. Supported types: '' @ join '', '' supported_key_types)), d)
          else
            (case (case generate_key L (urandom rq 0) kt of
                     Inl e \<Rightarrow> Inl e
                   | Inr raw_key \<Rightarrow> encrypt_key_with_master L cfg (urandom rq 1) raw_key) of
               Inl e \<Rightarrow>
                 (Inl (HTTPException 500 (''Failed to create key: '' @ exn_str e)),
                  log_audit L cfg d (Some (sub rq)) ''create_key'' ''key'' None ''127.0.0.1''
                    ''failure'' None None (utcnow rq 0))
             | Inr wrapped \<Rightarrow>
                 (let db_key = \<lparr>row_id = new_id, name = key_name, key_type = kt,
                                 encrypted_key = wrapped, key_version = 1, is_active = True,
                                 is_revoked = False, created_by = sub rq,
                                 created_at = utcnow rq 0, rotated_at = None,
                                 revoked_at = None\<rparr>;
                      d1 = d\<lparr>crypto_keys := crypto_keys d @ [db_key]\<rparr>;
                      d2 = log_audit L cfg d1 (Some (sub rq)) ''create_key'' ''key''
                             (Some (int_repr new_id)) ''127.0.0.1'' ''success'' None None
                             (utcnow rq 1)
                  in (Inr (response_of_key db_key), d2))))"

definition rotate_key ::
  "lib \<Rightarrow> config \<Rightarrow> request \<Rightarrow> int \<Rightarrow> db \<Rightarrow> (http_exn + key_response) \<times> db" where
  "rotate_key L cfg rq key_id d =
     (case require_role L (role rq) [''admin''] of
        Some denied \<Rightarrow> (Inl denied, d)
      | None \<Rightarrow>
         (case find (\<lambda>k. row_id k = key_id) (crypto_keys d) of
            None \<Rightarrow> (Inl (HTTPException 404 ''Key not found''), d)
          | Some db_key \<Rightarrow>
              if is_revoked db_key
              then (Inl (HTTPException 400 ''Cannot rotate a revoked key''), d)
              else
                (case (case generate_key L (urandom rq 0) (key_type db_key) of
                         Inl e \<Rightarrow> Inl e
                       | Inr raw_key \<Rightarrow> encrypt_key_with_master L cfg (urandom rq 1) raw_key) of
                   Inl e \<Rightarrow>
                     (Inl (HTTPException 500 (''Failed to rotate key: '' @ exn_str e)),
                      log_audit L cfg d (Some (sub rq)) ''rotate_key'' ''key''
                        (Some (int_repr key_id)) ''127.0.0.1'' ''failure'' None None (utcnow rq 0))
                 | Inr wrapped \<Rightarrow>
                     (let db_key' = db_key\<lparr>encrypted_key := wrapped,
                                            key_version := key_version db_key + 1,
                                            rotated_at := Some (utcnow rq 0)\<rparr>;
                          d1 = d\<lparr>crypto_keys := update_row db_key' (crypto_keys d)\<rparr>;
                          d2 = log_audit L cfg d1 (Some (sub rq)) ''rotate_key'' ''key''
                                 (Some (int_repr key_id)) ''127.0.0.1'' ''success'' None None
                                 (utcnow rq 1)
                      in (Inr (response_of_key db_key'), d2)))))"

definition revoke_key ::
  "lib \<Rightarrow> config \<Rightarrow> request \<Rightarrow> int \<Rightarrow> db \<Rightarrow> (http_exn + key_response) \<times> db" where
  "revoke_key L cfg rq key_id d =
     (case require_role L (role rq) [''admin''] of
        Some denied \<Rightarrow> (Inl denied, d)
      | None \<Rightarrow>
         (case find (\<lambda>k. row_id k = key_id) (crypto_keys d) of
            None \<Rightarrow> (Inl (HTTPException 404 ''Key not found''), d)
          | Some db_key \<Rightarrow>
              (let db_key' = db_key\<lparr>is_revoked := True,
                                     is_active := False,
                                     revoked_at := Some (utcnow rq 0)\<rparr>;
                   d1 = d\<lparr>crypto_keys := update_row db_key' (crypto_keys d)\<rparr>;
                   d2 = log_audit L cfg d1 (Some (sub rq)) ''revoke_key'' ''key''
                          (Some (int_repr key_id)) ''127.0.0.1'' ''success'' None None
                          (utcnow rq 1)
               in (Inr (response_of_key db_key'), d2))))"

definition delete_key ::
  "lib \<Rightarrow> config \<Rightarrow> request \<Rightarrow> int \<Rightarrow> db \<Rightarrow> (http_exn + string) \<times> db" where
  "delete_key L cfg rq key_id d =
     (case require_role L (role rq) [''admin''] of
        Some denied \<Rightarrow> (Inl denied, d)
      | None \<Rightarrow>
         (case find (\<lambda>k. row_id k = key_id) (crypto_keys d) of
            None \<Rightarrow> (Inl (HTTPException 404 ''Key not found''), d)
          | Some db_key \<Rightarrow>
              (let d1 = d\<lparr>crypto_keys := remove1 db_key (crypto_keys d)\<rparr>;
                   d2 = log_audit L cfg d1 (Some (sub rq)) ''delete_key'' ''key''
                          (Some (int_repr key_id)) ''127.0.0.1'' ''success'' None None
                          (utcnow rq 0)
               in (Inr ''Key deleted successfully'', d2))))"

subsection \<open>routers/encrypt.py\<close>

definition encrypt_data ::
  "lib \<Rightarrow> config \<Rightarrow> request \<Rightarrow> int \<Rightarrow> string \<Rightarrow> db \<Rightarrow> (http_exn + encrypt_response) \<times> db" where
  "encrypt_data L cfg rq key_id plaintext d =
     (let audit = (\<lambda>outcome. log_audit L cfg d (Some (sub rq)) ''encrypt'' ''data''
                     (Some (int_repr key_id)) ''127.0.0.1'' outcome None None (utcnow rq 0)) in
      case find (\<lambda>k. row_id k = key_id) (crypto_keys d) of
        None \<Rightarrow> (Inl (HTTPException 404 ''Key not found''), audit ''failure'')
      | Some db_key \<Rightarrow>
          if \<not> is_active db_key \<or> is_revoked db_key
          then (Inl (HTTPException 400 ''Key is not active or has been revoked''), audit ''failure'')
          else
            (case (case decrypt_key_with_master L cfg (encrypted_key db_key) of
                     Inl e \<Rightarrow> Inl e
                   | Inr raw_key \<Rightarrow>
                       encrypt_with_key L (urandom rq 0) plaintext raw_key (key_type db_key)) of
               Inl e \<Rightarrow>
                 (Inl (HTTPException 500 (''Encryption failed: '' @ exn_str e)), audit ''failure'')
             | Inr ciphertext \<Rightarrow>
                 (Inr (EncryptResponse (b64encode L ciphertext) (row_id db_key) (key_version db_key)),
                  audit ''success'')))"

definition decrypt_data ::
  "lib \<Rightarrow> config \<Rightarrow> request \<Rightarrow> int \<Rightarrow> string \<Rightarrow> db \<Rightarrow> (http_exn + decrypt_response) \<times> db" where
  "decrypt_data L cfg rq key_id ciphertext d =
     (let audit = (\<lambda>outcome. log_audit L cfg d (Some (sub rq)) ''decrypt'' ''data''
                     (Some (int_repr key_id)) ''127.0.0.1'' outcome None None (utcnow rq 0)) in
      case find (\<lambda>k. row_id k = key_id) (crypto_keys d) of
        None \<Rightarrow> (Inl (HTTPException 404 ''Key not found''), audit ''failure'')
      | Some db_key \<Rightarrow>
          if \<not> is_active db_key \<and> \<not> is_revoked db_key
          then (Inl (HTTPException 400 ''Key is not available''), audit ''failure'')
          else
            (case (case decrypt_key_with_master L cfg (encrypted_key db_key) of
                     Inl e \<Rightarrow> Inl e
                   | Inr raw_key \<Rightarrow>
                       (case b64decode L ciphertext of
                          Inl e \<Rightarrow> Inl e
                        | Inr ciphertext_bytes \<Rightarrow>
                            decrypt_with_key L ciphertext_bytes raw_key (key_type db_key))) of
               Inl e \<Rightarrow>
                 (Inl (HTTPException 500 (''Decryption failed: '' @ exn_str e)), audit ''failure'')
             | Inr plaintext \<Rightarrow>
                 (Inr (DecryptResponse plaintext (row_id db_key) (key_version db_key)),
                  audit ''success'')))"

section \<open>What is assumed of the libraries\<close>

text \<open>
  AES-GCM under a key of 16, 24 or 32 bytes and a 96-bit nonce encrypts without raising,
  returns a 16-byte tag, and decrypts what it encrypted.
\<close>

definition gcm_correct :: "lib \<Rightarrow> bool" where
  "gcm_correct L \<longleftrightarrow>
     (\<forall>key nonce pt. length key \<in> {16, 24, 32} \<and> length nonce = 12 \<longrightarrow>
        (\<exists>ct tag. aes_gcm_encrypt L key nonce pt = Inr (ct, tag) \<and> length tag = 16 \<and>
                  aes_gcm_decrypt L key nonce tag ct = Inr pt))"

text \<open>An HMAC digest has the size of its hash: 32 bytes for SHA-256, 64 for SHA-512.\<close>

fun digest_size :: "hash_alg \<Rightarrow> nat" where
  "digest_size sha256 = 32"
| "digest_size sha512 = 64"

definition hmac_sized :: "lib \<Rightarrow> bool" where
  "hmac_sized L \<longleftrightarrow> (\<forall>h key msg. length (hmac_digest L h key msg) = digest_size h)"


text \<open>
  The exceptions that the library calls of \<^verbatim>\<open>utils/crypto.py\<close> can raise: one rule for
  each call that can fail.
\<close>

inductive lib_raises :: "lib \<Rightarrow> exn \<Rightarrow> bool" for L :: lib where
  gcm_enc: "aes_gcm_encrypt L key nonce pt = Inl e \<Longrightarrow> lib_raises L e"
| gcm_dec: "aes_gcm_decrypt L key nonce tag ct = Inl e \<Longrightarrow> lib_raises L e"
| cbc_enc: "aes_cbc_encrypt L key iv pt = Inl e \<Longrightarrow> lib_raises L e"
| cbc_dec: "aes_cbc_decrypt L key iv ct = Inl e \<Longrightarrow> lib_raises L e"
| unpad: "pkcs7_unpad L n pt = Inl e \<Longrightarrow> lib_raises L e"
| chacha_enc: "chacha20poly1305_encrypt L key nonce pt = Inl e \<Longrightarrow> lib_raises L e"
| chacha_dec: "chacha20poly1305_decrypt L key nonce ct = Inl e \<Longrightarrow> lib_raises L e"
| load_pem: "load_pem_private_key L pem = Inl e \<Longrightarrow> lib_raises L e"
| rsa_enc: "rsa_oaep_encrypt L sk rnd pt = Inl e \<Longrightarrow> lib_raises L e"
| rsa_dec: "rsa_oaep_decrypt L sk ct = Inl e \<Longrightarrow> lib_raises L e"
| ecdsa: "ecdsa_sign L sk rnd pt = Inl e \<Longrightarrow> lib_raises L e"
| ed25519: "ed25519_sign L sk pt = Inl e \<Longrightarrow> lib_raises L e"
| decode: "\<not> utf8_valid L b \<Longrightarrow> lib_raises L (Exn ''UnicodeDecodeError'' (utf8_reason L b))"

text \<open>The messages of the exceptions that \<^verbatim>\<open>utils/crypto.py\<close> raises itself.\<close>

definition own_messages :: "string \<Rightarrow> string list" where
  "own_messages kt =
     [''Unsupported key type: '' @ kt,
      ''Invalid HMAC format'', ''HMAC verification failed'',
      ''Invalid ECC signature format'', ''ECC signature verification failed'',
      ''Invalid Ed25519 signature format'', ''Ed25519 signature verification failed'']"

text \<open>The error classes that the specification names for seal, open and unwrap.\<close>

definition typed_errors :: "string list" where
  "typed_errors = [''IntegrityError'', ''PaddingError'', ''UnsupportedAlgorithm'', ''MalformedInput'']"


text \<open>
  AES-GCM decryption is given a tag of at least 16 bytes or raises \<^verbatim>\<open>ValueError\<close>
  (\<^verbatim>\<open>modes.GCM\<close> is called with the default \<^verbatim>\<open>min_tag_length\<close>), and it raises
  \<^verbatim>\<open>InvalidTag\<close>, whose text is empty, when it is given a ciphertext with a 16-byte tag
  other than the tag the ciphertext was encrypted with.
\<close>

definition gcm_rejects_short_tag :: "lib \<Rightarrow> bool" where
  "gcm_rejects_short_tag L \<longleftrightarrow>
     (\<forall>key nonce tag ct. length tag < 16 \<longrightarrow>
        (\<exists>m. aes_gcm_decrypt L key nonce tag ct = Inl (ValueError m)))"

definition gcm_authentic :: "lib \<Rightarrow> bool" where
  "gcm_authentic L \<longleftrightarrow>
     (\<forall>key nonce pt ct tag tag'.
        aes_gcm_encrypt L key nonce pt = Inr (ct, tag) \<and> length tag' = 16 \<and> tag' \<noteq> tag \<longrightarrow>
        aes_gcm_decrypt L key nonce tag' ct = Inl (Exn ''InvalidTag'' []))"

section \<open>What the specification describes\<close>

text \<open>
  Two descriptions taken from the specification and not from the code, to compare the
  code with. The first is the key material of each algorithm: 16, 32 or 64 random bytes
  for the symmetric and MAC families, a freshly generated private key of the named size
  or curve for the others.
\<close>

definition spec_key_material :: "lib \<Rightarrow> entropy \<Rightarrow> string \<Rightarrow> bytes" where
  "spec_key_material L rnd kt =
     (if kt \<in> set [''AES128GCM''] then token_bytes rnd 16
      else if kt \<in> set [''AES256GCM'', ''AES256CBC'', ''ChaCha20Poly1305'', ''HMAC256'']
        then token_bytes rnd 32
      else if kt \<in> set [''HMAC512''] then token_bytes rnd 64
      else if kt \<in> set [''RSA2048'', ''RSA''] then rsa_private_pem L rnd 2048
      else if kt \<in> set [''RSA4096''] then rsa_private_pem L rnd 4096
      else if kt \<in> set [''ECC256''] then ec_private_pem L rnd ''secp256r1''
      else if kt \<in> set [''ECC384''] then ec_private_pem L rnd ''secp384r1''
      else ed25519_private_pem L rnd)"

text \<open>
  The second is the canonical encoding of an audit record: one JSON object without
  white space, the nine fields in the alphabetical order of their names, a comma between
  two fields and a colon between a name and its value.
\<close>

definition spec_canonical_encoding ::
  "lib \<Rightarrow> int option \<Rightarrow> string option \<Rightarrow> string option \<Rightarrow> string option \<Rightarrow> string option
     \<Rightarrow> string option \<Rightarrow> string option \<Rightarrow> string option \<Rightarrow> datetime \<Rightarrow> string" where
  "spec_canonical_encoding L uid act rtype rid ip st det ua t =
     ''{''
     @ encode_basestring_ascii L ''action'' @ '':'' @ json_value L (json_of_str act) @ '',''
     @ encode_basestring_ascii L ''details'' @ '':'' @ json_value L (json_of_str det) @ '',''
     @ encode_basestring_ascii L ''ip_address'' @ '':'' @ json_value L (json_of_str ip) @ '',''
     @ encode_basestring_ascii L ''resource_id'' @ '':'' @ json_value L (json_of_str rid) @ '',''
     @ encode_basestring_ascii L ''resource_type'' @ '':'' @ json_value L (json_of_str rtype) @ '',''
     @ encode_basestring_ascii L ''status'' @ '':'' @ json_value L (json_of_str st) @ '',''
     @ encode_basestring_ascii L ''timestamp'' @ '':'' @ encode_basestring_ascii L (isoformat L t) @ '',''
     @ encode_basestring_ascii L ''user_agent'' @ '':'' @ json_value L (json_of_str ua) @ '',''
     @ encode_basestring_ascii L ''user_id'' @ '':'' @ json_value L (json_of_int uid)
     @ ''}''"

section \<open>A small instance\<close>

text \<open>
  An instance of the library record that can be evaluated. It keeps the sizes and the
  framing assumed above and none of the cryptography: it shows that the assumptions can
  be met together, and it lets the code run at concrete inputs.
\<close>

definition demo_lib :: lib where
  "demo_lib =
     \<lparr>aes_gcm_encrypt = (\<lambda>key nonce pt.
          if length key \<notin> {16, 24, 32} then Inl (ValueError ''Invalid key size'')
          else if length nonce < 8 \<or> 128 < length nonce
            then Inl (ValueError
                   ''initialization_vector must be between 8 and 128 bytes (64 and 1024 bits).'')
          else Inr (pt, replicate 16 (CHR ''t''))),
      aes_gcm_decrypt = (\<lambda>key nonce tag ct.
          if length key \<notin> {16, 24, 32} then Inl (ValueError ''Invalid key size'')
          else if length nonce < 8 \<or> 128 < length nonce
            then Inl (ValueError
                   ''initialization_vector must be between 8 and 128 bytes (64 and 1024 bits).'')
          else if length tag < 16
            then Inl (ValueError ''Authentication tag must be 16 bytes or longer.'')
          else if tag = replicate 16 (CHR ''t'') then Inr ct
          else Inl (Exn ''InvalidTag'' [])),
      aes_cbc_encrypt = (\<lambda>key iv pt. Inr pt),
      aes_cbc_decrypt = (\<lambda>key iv ct. Inr ct),
      pkcs7_pad = (\<lambda>n pt. pt @ ''p''),
      pkcs7_unpad = (\<lambda>n pt. if pt = [] then Inl (ValueError ''Invalid padding bytes.'')
                              else Inr (butlast pt)),
      chacha20poly1305_encrypt = (\<lambda>key nonce pt. Inr (pt @ replicate 16 (CHR ''t''))),
      chacha20poly1305_decrypt = (\<lambda>key nonce ct.
          if 16 \<le> length ct \<and> drop (length ct - 16) ct = replicate 16 (CHR ''t'')
          then Inr (take (length ct - 16) ct) else Inl (Exn ''InvalidTag'' [])),
      hmac_digest = (\<lambda>h key msg. replicate (digest_size h) (CHR ''d'')),
      rsa_private_pem = (\<lambda>rnd bits. ''rsa''),
      ec_private_pem = (\<lambda>rnd curve. ''ec''),
      ed25519_private_pem = (\<lambda>rnd. ''ed''),
      load_pem_private_key = (\<lambda>pem. Inr pem),
      rsa_oaep_encrypt = (\<lambda>sk rnd pt. Inr pt),
      rsa_oaep_decrypt = (\<lambda>sk ct. Inr ct),
      ecdsa_sign = (\<lambda>sk rnd msg. Inr (''0'' @ replicate 69 (CHR ''s''))),
      ecdsa_verify = (\<lambda>sk s msg. s = ''0'' @ replicate 69 (CHR ''s'')),
      ed25519_sign = (\<lambda>sk msg. Inr (replicate 64 (CHR ''s''))),
      ed25519_verify = (\<lambda>sk s msg. s = replicate 64 (CHR ''s'')),
      utf8_valid = (\<lambda>b. True),
      utf8_reason = (\<lambda>b. ''invalid start byte''),
      b64encode = (\<lambda>b. b),
      b64decode = (\<lambda>s. Inr s),
      encode_basestring_ascii = (\<lambda>s. ''<'' @ s @ ''>''),
      isoformat = int_repr,
      timedelta_overflow_text = (\<lambda>n. ''days='' @ int_repr n @ ''; must have magnitude <= 999999999''),
      require_role = (\<lambda>r allowed.
          if r \<in> set allowed then None else Some (HTTPException 403 ''Insufficient permissions''))\<rparr>"

definition demo_cfg :: config where
  "demo_cfg = \<lparr>MASTER_KEY = replicate 32 (CHR ''m''), AUDIT_SECRET = ''audit''\<rparr>"

definition demo_request :: request where
  "demo_request = \<lparr>sub = 1, role = ''admin'', utcnow = (\<lambda>n. 200 + int n),
                    urandom = (\<lambda>n i. if n = 0 then CHR ''r'' else CHR ''n'')\<rparr>"

definition demo_key :: crypto_key where
  "demo_key =
     \<lparr>row_id = 7, name = ''k'', key_type = ''AES256GCM'',
      encrypted_key = replicate 12 (CHR ''o'') @ replicate 16 (CHR ''t'') @ replicate 32 (CHR ''k''),
      key_version = 1, is_active = True, is_revoked = False, created_by = 1, created_at = 0,
      rotated_at = None, revoked_at = None\<rparr>"

definition demo_revoked_key :: crypto_key where
  "demo_revoked_key = demo_key\<lparr>is_active := False, is_revoked := True, revoked_at := Some 100\<rparr>"

definition demo_db :: "crypto_key \<Rightarrow> db" where
  "demo_db k = \<lparr>crypto_keys = [k], audit_logs = []\<rparr>"


text \<open>An audit row as the first instance signs it.\<close>

definition demo_log :: audit_log where
  "demo_log =
     \<lparr>user_id = Some 1, action = Some ''revoke_key'', resource_type = Some ''key'',
      resource_id = Some ''7'', ip_address = Some ''127.0.0.1'', user_agent = None,
      status = Some ''success'', details = None,
      hmac_signature = Some ''6464646464646464646464646464646464646464646464646464646464646464'',
      timestamp = Some 200\<rparr>"

section \<open>Helper facts\<close>

lemma length_token_bytes: "length (token_bytes rnd n) = n"
  by (simp add: token_bytes_def)

subsection \<open>The small instance meets the assumptions\<close>

lemma demo_gcm_correct: "gcm_correct demo_lib"
  by (simp add: gcm_correct_def demo_lib_def)

lemma demo_hmac_sized: "hmac_sized demo_lib"
  by (simp add: hmac_sized_def demo_lib_def)


lemma demo_key_fields:
  "row_id demo_key = 7" "\<not> is_revoked demo_key" "is_active demo_key"
  "key_type demo_key \<in> set supported_key_types" "key_version demo_key = 1"
  "rotated_at demo_key = None" "created_at demo_key = 0"
  by (simp_all add: demo_key_def supported_key_types_def)

lemma demo_master: "32 \<le> length (MASTER_KEY demo_cfg)"
  by (simp add: demo_cfg_def)

subsection \<open>Splitting at the first separator\<close>

lemma split_once_sound:
  "split_once sep xs = Some (a, b) \<Longrightarrow> xs = a @ sep @ b"
proof (induction xs arbitrary: a b)
  case Nil then show ?case by simp
next
  case (Cons x xs)
  show ?case
  proof (cases "take (length sep) (x # xs) = sep")
    case True
    with Cons.prems have "a = []" "b = drop (length sep) (x # xs)" by auto
    with True show ?thesis by (metis append_Nil append_take_drop_id)
  next
    case False
    with Cons.prems obtain a' where s: "split_once sep xs = Some (a', b)" and a: "a = x # a'"
      by (auto split: option.splits)
    from Cons.IH[OF s] a show ?thesis by simp
  qed
qed

lemma take_append_le: "n \<le> length xs \<Longrightarrow> take n (xs @ ys) = take n xs"
  by simp

lemma drop_append_le: "n \<le> length xs \<Longrightarrow> drop n (xs @ ys) = drop n xs @ ys"
  by simp

lemma split_once_append:
  "split_once sep xs = Some (a, b) \<Longrightarrow> split_once sep (xs @ ys) = Some (a, b @ ys)"
proof (induction xs arbitrary: a b)
  case Nil then show ?case by simp
next
  case (Cons x xs)
  from split_once_sound[OF Cons.prems] have "length (x # xs) = length a + length sep + length b"
    by (simp only: length_append add.assoc)
  then have len: "length sep \<le> length (x # xs)" by linarith
  have tk: "take (length sep) ((x # xs) @ ys) = take (length sep) (x # xs)"
    using len by (rule take_append_le)
  have dr: "drop (length sep) ((x # xs) @ ys) = drop (length sep) (x # xs) @ ys"
    using len by (rule drop_append_le)
  have unf: "split_once sep ((x # xs) @ ys) =
     (if take (length sep) ((x # xs) @ ys) = sep then Some ([], drop (length sep) ((x # xs) @ ys))
      else (case split_once sep (xs @ ys) of
              None \<Rightarrow> None
            | Some (before, rest) \<Rightarrow> Some (x # before, rest)))"
    by (simp only: append_Cons split_once.simps)
  show ?case
  proof (cases "take (length sep) (x # xs) = sep")
    case True
    with Cons.prems have ab: "a = []" "b = drop (length sep) (x # xs)" by auto
    show ?thesis unfolding unf tk dr using True ab by simp
  next
    case False
    with Cons.prems obtain a' where s: "split_once sep xs = Some (a', b)" and a: "a = x # a'"
      by (auto split: option.splits)
    show ?thesis unfolding unf tk using False Cons.IH[OF s] a by simp
  qed
qed

lemma split_once_contains:
  "sep \<noteq> [] \<Longrightarrow> \<exists>a b. split_once sep (u @ sep @ v) = Some (a, b)"
proof (induction u)
  case Nil
  then show ?case by (cases sep) auto
next
  case (Cons x u)
  then obtain a b where "split_once sep (u @ sep @ v) = Some (a, b)" by blast
  then show ?case by simp
qed

subsection \<open>The branches of sealing and opening, tag by tag\<close>

lemma seal_hmac:
  "encrypt_with_key L rnd p key ''HMAC256'' = Inr (p @ ''|HMAC|'' @ hmac_digest L sha256 key p)"
  "encrypt_with_key L rnd p key ''HMAC512'' = Inr (p @ ''|HMAC|'' @ hmac_digest L sha512 key p)"
  by (simp_all add: encrypt_with_key_def)

lemma seal_ecdsa:
  "encrypt_with_key L rnd p key ''ECC256'' =
     (case load_pem_private_key L key of
        Inl e \<Rightarrow> Inl e
      | Inr sk \<Rightarrow> (case ecdsa_sign L sk rnd p of
                    Inl e \<Rightarrow> Inl e
                  | Inr signature \<Rightarrow> Inr (p @ ''|ECC|'' @ signature)))"
  "encrypt_with_key L rnd p key ''ECC384'' =
     (case load_pem_private_key L key of
        Inl e \<Rightarrow> Inl e
      | Inr sk \<Rightarrow> (case ecdsa_sign L sk rnd p of
                    Inl e \<Rightarrow> Inl e
                  | Inr signature \<Rightarrow> Inr (p @ ''|ECC|'' @ signature)))"
  by (simp_all add: encrypt_with_key_def)

lemma seal_ed25519:
  "encrypt_with_key L rnd p key ''Ed25519'' =
     (case load_pem_private_key L key of
        Inl e \<Rightarrow> Inl e
      | Inr sk \<Rightarrow> (case ed25519_sign L sk p of
                    Inl e \<Rightarrow> Inl e
                  | Inr signature \<Rightarrow> Inr (p @ ''|Ed25519|'' @ signature)))"
  by (simp add: encrypt_with_key_def)

lemma open_hmac:
  "decrypt_with_key L c key ''HMAC256'' =
     (case split_once ''|HMAC|'' c of
        None \<Rightarrow> Inl (ValueError ''Invalid HMAC format'')
      | Some (pp, hp) \<Rightarrow>
          if hp \<noteq> hmac_digest L sha256 key pp
          then Inl (ValueError ''HMAC verification failed'') else decode_utf8 L pp)"
  "decrypt_with_key L c key ''HMAC512'' =
     (case split_once ''|HMAC|'' c of
        None \<Rightarrow> Inl (ValueError ''Invalid HMAC format'')
      | Some (pp, hp) \<Rightarrow>
          if hp \<noteq> hmac_digest L sha512 key pp
          then Inl (ValueError ''HMAC verification failed'') else decode_utf8 L pp)"
  by (simp_all add: decrypt_with_key_def split: option.split)

lemma open_ecdsa:
  "decrypt_with_key L c key ''ECC256'' =
     (case split_once ''|ECC|'' c of
        None \<Rightarrow> Inl (ValueError ''Invalid ECC signature format'')
      | Some (pp, sp) \<Rightarrow>
          (case load_pem_private_key L key of
             Inl e \<Rightarrow> Inl e
           | Inr sk \<Rightarrow> if ecdsa_verify L sk sp pp then decode_utf8 L pp
                       else Inl (ValueError ''ECC signature verification failed'')))"
  "decrypt_with_key L c key ''ECC384'' =
     (case split_once ''|ECC|'' c of
        None \<Rightarrow> Inl (ValueError ''Invalid ECC signature format'')
      | Some (pp, sp) \<Rightarrow>
          (case load_pem_private_key L key of
             Inl e \<Rightarrow> Inl e
           | Inr sk \<Rightarrow> if ecdsa_verify L sk sp pp then decode_utf8 L pp
                       else Inl (ValueError ''ECC signature verification failed'')))"
  by (simp_all add: decrypt_with_key_def)

lemma open_ed25519:
  "decrypt_with_key L c key ''Ed25519'' =
     (case split_once ''|Ed25519|'' c of
        None \<Rightarrow> Inl (ValueError ''Invalid Ed25519 signature format'')
      | Some (pp, sp) \<Rightarrow>
          (case load_pem_private_key L key of
             Inl e \<Rightarrow> Inl e
           | Inr sk \<Rightarrow> if ed25519_verify L sk sp pp then decode_utf8 L pp
                       else Inl (ValueError ''Ed25519 signature verification failed'')))"
  by (simp add: decrypt_with_key_def)





lemma decode_utf8_fails:
  assumes "decode_utf8 L b = Inl e"
  shows "lib_raises L e"
proof (cases "utf8_valid L b")
  case True
  with assms show ?thesis by (simp add: decode_utf8_def)
next
  case False
  with assms have "e = Exn ''UnicodeDecodeError'' (utf8_reason L b)"
    by (simp add: decode_utf8_def)
  with lib_raises.decode [OF False] show ?thesis by simp
qed

lemma open_gcm:
  "decrypt_with_key L c key ''AES128GCM'' =
     (case aes_gcm_decrypt L key (take 12 c) (take 16 (drop 12 c)) (drop 28 c) of
        Inl e \<Rightarrow> Inl e | Inr pb \<Rightarrow> decode_utf8 L pb)"
  "decrypt_with_key L c key ''AES256GCM'' =
     (case aes_gcm_decrypt L key (take 12 c) (take 16 (drop 12 c)) (drop 28 c) of
        Inl e \<Rightarrow> Inl e | Inr pb \<Rightarrow> decode_utf8 L pb)"
  by (simp_all add: decrypt_with_key_def)

lemma open_cbc:
  "decrypt_with_key L c key ''AES256CBC'' =
     (case aes_cbc_decrypt L key (take 16 c) (drop 16 c) of
        Inl e \<Rightarrow> Inl e
      | Inr padded \<Rightarrow> (case pkcs7_unpad L 128 padded of
                         Inl e \<Rightarrow> Inl e | Inr pb \<Rightarrow> decode_utf8 L pb))"
  by (simp add: decrypt_with_key_def)

lemma open_chacha:
  "decrypt_with_key L c key ''ChaCha20Poly1305'' =
     (case chacha20poly1305_decrypt L key (take 12 c) (drop 12 c) of
        Inl e \<Rightarrow> Inl e | Inr pb \<Rightarrow> decode_utf8 L pb)"
  by (simp add: decrypt_with_key_def)

lemma open_rsa:
  "decrypt_with_key L c key ''RSA2048'' =
     (case load_pem_private_key L key of
        Inl e \<Rightarrow> Inl e
      | Inr sk \<Rightarrow> (case rsa_oaep_decrypt L sk c of
                     Inl e \<Rightarrow> Inl e | Inr pb \<Rightarrow> decode_utf8 L pb))"
  "decrypt_with_key L c key ''RSA4096'' =
     (case load_pem_private_key L key of
        Inl e \<Rightarrow> Inl e
      | Inr sk \<Rightarrow> (case rsa_oaep_decrypt L sk c of
                     Inl e \<Rightarrow> Inl e | Inr pb \<Rightarrow> decode_utf8 L pb))"
  "decrypt_with_key L c key ''RSA'' =
     (case load_pem_private_key L key of
        Inl e \<Rightarrow> Inl e
      | Inr sk \<Rightarrow> (case rsa_oaep_decrypt L sk c of
                     Inl e \<Rightarrow> Inl e | Inr pb \<Rightarrow> decode_utf8 L pb))"
  by (simp_all add: decrypt_with_key_def)

lemma case_sum_fails:
  assumes "(case x of Inl e \<Rightarrow> Inl e | Inr v \<Rightarrow> f v) = Inl e"
  obtains "x = Inl e" | v where "x = Inr v" "f v = Inl e"
  using assms by (cases x) simp_all


lemma supported_cases:
  assumes "kt \<in> set supported_key_types"
  obtains "kt = ''AES128GCM''" | "kt = ''AES256GCM''" | "kt = ''AES256CBC''"
    | "kt = ''ChaCha20Poly1305''" | "kt = ''RSA''" | "kt = ''RSA2048''" | "kt = ''RSA4096''"
    | "kt = ''ECC256''" | "kt = ''ECC384''" | "kt = ''Ed25519''" | "kt = ''HMAC256''"
    | "kt = ''HMAC512''"
proof -
  from assms have "kt = ''AES128GCM'' \<or> kt = ''AES256GCM'' \<or> kt = ''AES256CBC''
      \<or> kt = ''ChaCha20Poly1305'' \<or> kt = ''RSA'' \<or> kt = ''RSA2048'' \<or> kt = ''RSA4096''
      \<or> kt = ''ECC256'' \<or> kt = ''ECC384'' \<or> kt = ''Ed25519'' \<or> kt = ''HMAC256''
      \<or> kt = ''HMAC512''"
    by (simp add: supported_key_types_def)
  with that show thesis by (elim disjE)
qed

lemma unsupported_open:
  assumes "kt \<notin> set supported_key_types"
  shows "decrypt_with_key L c key kt = Inl (ValueError (''Unsupported key type: '' @ kt))"
  using assms by (simp add: supported_key_types_def decrypt_with_key_def)

lemma unsupported_seal:
  assumes "kt \<notin> set supported_key_types"
  shows "encrypt_with_key L rnd p key kt = Inl (ValueError (''Unsupported key type: '' @ kt))"
  using assms by (simp add: supported_key_types_def encrypt_with_key_def)

lemma gcm_open_fails:
  assumes "(case aes_gcm_decrypt L key n t c of Inl e \<Rightarrow> Inl e | Inr pb \<Rightarrow> decode_utf8 L pb) = Inl e"
  shows "lib_raises L e"
  using assms
proof (cases rule: case_sum_fails)
  case 1 then show ?thesis by (rule lib_raises.gcm_dec)
next
  case (2 v) then show ?thesis by (intro decode_utf8_fails)
qed


lemma cbc_open_fails:
  assumes "(case aes_cbc_decrypt L key iv c of
              Inl e \<Rightarrow> Inl e
            | Inr padded \<Rightarrow> (case pkcs7_unpad L n padded of
                               Inl e \<Rightarrow> Inl e | Inr pb \<Rightarrow> decode_utf8 L pb)) = Inl e"
  shows "lib_raises L e"
  using assms
proof (cases rule: case_sum_fails)
  case 1 then show ?thesis by (rule lib_raises.cbc_dec)
next
  case (2 padded)
  from 2(2) show ?thesis
  proof (cases rule: case_sum_fails)
    case 1 then show ?thesis by (rule lib_raises.unpad)
  next
    case (2 v) then show ?thesis by (intro decode_utf8_fails)
  qed
qed

lemma chacha_open_fails:
  assumes "(case chacha20poly1305_decrypt L key n c of
              Inl e \<Rightarrow> Inl e | Inr pb \<Rightarrow> decode_utf8 L pb) = Inl e"
  shows "lib_raises L e"
  using assms
proof (cases rule: case_sum_fails)
  case 1 then show ?thesis by (rule lib_raises.chacha_dec)
next
  case (2 v) then show ?thesis by (intro decode_utf8_fails)
qed

lemma rsa_open_fails:
  assumes "(case load_pem_private_key L key of
              Inl e \<Rightarrow> Inl e
            | Inr sk \<Rightarrow> (case rsa_oaep_decrypt L sk c of
                           Inl e \<Rightarrow> Inl e | Inr pb \<Rightarrow> decode_utf8 L pb)) = Inl e"
  shows "lib_raises L e"
  using assms
proof (cases rule: case_sum_fails)
  case 1 then show ?thesis by (rule lib_raises.load_pem)
next
  case (2 sk)
  from 2(2) show ?thesis
  proof (cases rule: case_sum_fails)
    case 1 then show ?thesis by (rule lib_raises.rsa_dec)
  next
    case (2 v) then show ?thesis by (intro decode_utf8_fails)
  qed
qed

lemma hmac_open_fails:
  assumes "(case split_once ''|HMAC|'' c of
              None \<Rightarrow> Inl (ValueError ''Invalid HMAC format'')
            | Some (pp, hp) \<Rightarrow>
                if hp \<noteq> hmac_digest L h key pp
                then Inl (ValueError ''HMAC verification failed'') else decode_utf8 L pp) = Inl e"
  shows "e = ValueError ''Invalid HMAC format'' \<or> e = ValueError ''HMAC verification failed''
         \<or> lib_raises L e"
proof (cases "split_once ''|HMAC|'' c")
  case None
  with assms show ?thesis by simp
next
  case (Some r)
  obtain pp hp where r: "r = (pp, hp)" by (cases r)
  show ?thesis
  proof (cases "hp \<noteq> hmac_digest L h key pp")
    case True
    with assms Some r show ?thesis by simp
  next
    case False
    with assms Some r have "decode_utf8 L pp = Inl e" by simp
    then show ?thesis by (intro disjI2 decode_utf8_fails)
  qed
qed

lemma signature_open_fails:
  assumes "(case split_once marker c of
              None \<Rightarrow> Inl (ValueError bad_format)
            | Some (pp, sp) \<Rightarrow>
                (case load_pem_private_key L key of
                   Inl e \<Rightarrow> Inl e
                 | Inr sk \<Rightarrow> if verify sk sp pp then decode_utf8 L pp
                             else Inl (ValueError bad_signature))) = Inl e"
  shows "e = ValueError bad_format \<or> e = ValueError bad_signature \<or> lib_raises L e"
proof (cases "split_once marker c")
  case None
  with assms show ?thesis by simp
next
  case (Some r)
  obtain pp sp where r: "r = (pp, sp)" by (cases r)
  from assms Some r have
    "(case load_pem_private_key L key of
        Inl e \<Rightarrow> Inl e
      | Inr sk \<Rightarrow> if verify sk sp pp then decode_utf8 L pp
                  else Inl (ValueError bad_signature)) = Inl e"
    by simp
  then show ?thesis
  proof (cases rule: case_sum_fails)
    case 1 then show ?thesis by (intro disjI2 lib_raises.load_pem)
  next
    case (2 sk)
    show ?thesis
    proof (cases "verify sk sp pp")
      case True
      with 2(2) have "decode_utf8 L pp = Inl e" by simp
      then show ?thesis by (intro disjI2 decode_utf8_fails)
    next
      case False
      with 2(2) show ?thesis by simp
    qed
  qed
qed

lemma own_messages_mem:
  "''Unsupported key type: '' @ kt \<in> set (own_messages kt)"
  "''Invalid HMAC format'' \<in> set (own_messages kt)"
  "''HMAC verification failed'' \<in> set (own_messages kt)"
  "''Invalid ECC signature format'' \<in> set (own_messages kt)"
  "''ECC signature verification failed'' \<in> set (own_messages kt)"
  "''Invalid Ed25519 signature format'' \<in> set (own_messages kt)"
  "''Ed25519 signature verification failed'' \<in> set (own_messages kt)"
  unfolding own_messages_def by (simp_all only: list.set insertI1 insertI2 insert_iff simp_thms)

lemma open_fails:
  assumes fail: "decrypt_with_key L c key kt = Inl e"
  shows "(\<exists>m. m \<in> set (own_messages kt) \<and> e = ValueError m) \<or> lib_raises L e"
proof (cases "kt \<in> set supported_key_types")
  case False
  from fail unsupported_open [OF False] have "e = ValueError (''Unsupported key type: '' @ kt)"
    by simp
  with own_messages_mem(1) show ?thesis by blast
next
  case True
  then show ?thesis
  proof (cases rule: supported_cases)
    case 1 from fail [unfolded 1 open_gcm] show ?thesis by (intro disjI2 gcm_open_fails)
  next
    case 2 from fail [unfolded 2 open_gcm] show ?thesis by (intro disjI2 gcm_open_fails)
  next
    case 3 from fail [unfolded 3 open_cbc] show ?thesis by (intro disjI2 cbc_open_fails)
  next
    case 4 from fail [unfolded 4 open_chacha] show ?thesis by (intro disjI2 chacha_open_fails)
  next
    case 5 from fail [unfolded 5 open_rsa] show ?thesis by (intro disjI2 rsa_open_fails)
  next
    case 6 from fail [unfolded 6 open_rsa] show ?thesis by (intro disjI2 rsa_open_fails)
  next
    case 7 from fail [unfolded 7 open_rsa] show ?thesis by (intro disjI2 rsa_open_fails)
  next
    case 8 from signature_open_fails [OF fail [unfolded 8 open_ecdsa]] own_messages_mem(4,5)
    show ?thesis by blast
  next
    case 9 from signature_open_fails [OF fail [unfolded 9 open_ecdsa]] own_messages_mem(4,5)
    show ?thesis by blast
  next
    case 10 from signature_open_fails [OF fail [unfolded 10 open_ed25519]] own_messages_mem(6,7)
    show ?thesis by blast
  next
    case 11 from hmac_open_fails [OF fail [unfolded 11 open_hmac]] own_messages_mem(2,3)
    show ?thesis by blast
  next
    case 12 from hmac_open_fails [OF fail [unfolded 12 open_hmac]] own_messages_mem(2,3)
    show ?thesis by blast
  qed
qed


lemma seal_gcm:
  "encrypt_with_key L rnd p key ''AES128GCM'' =
     (case aes_gcm_encrypt L key (token_bytes rnd 12) p of
        Inl e \<Rightarrow> Inl e
      | Inr (ct, tag) \<Rightarrow> Inr (token_bytes rnd 12 @ tag @ ct))"
  "encrypt_with_key L rnd p key ''AES256GCM'' =
     (case aes_gcm_encrypt L key (token_bytes rnd 12) p of
        Inl e \<Rightarrow> Inl e
      | Inr (ct, tag) \<Rightarrow> Inr (token_bytes rnd 12 @ tag @ ct))"
  by (simp_all add: encrypt_with_key_def Let_def)

lemma seal_cbc:
  "encrypt_with_key L rnd p key ''AES256CBC'' =
     (case aes_cbc_encrypt L key (token_bytes rnd 16) (pkcs7_pad L 128 p) of
        Inl e \<Rightarrow> Inl e
      | Inr ct \<Rightarrow> Inr (token_bytes rnd 16 @ ct))"
  by (simp add: encrypt_with_key_def Let_def)

lemma seal_chacha:
  "encrypt_with_key L rnd p key ''ChaCha20Poly1305'' =
     (case chacha20poly1305_encrypt L key (token_bytes rnd 12) p of
        Inl e \<Rightarrow> Inl e
      | Inr ct \<Rightarrow> Inr (token_bytes rnd 12 @ ct))"
  by (simp add: encrypt_with_key_def Let_def)

lemma seal_rsa:
  "encrypt_with_key L rnd p key ''RSA2048'' =
     (case load_pem_private_key L key of
        Inl e \<Rightarrow> Inl e | Inr sk \<Rightarrow> rsa_oaep_encrypt L sk rnd p)"
  "encrypt_with_key L rnd p key ''RSA4096'' =
     (case load_pem_private_key L key of
        Inl e \<Rightarrow> Inl e | Inr sk \<Rightarrow> rsa_oaep_encrypt L sk rnd p)"
  "encrypt_with_key L rnd p key ''RSA'' =
     (case load_pem_private_key L key of
        Inl e \<Rightarrow> Inl e | Inr sk \<Rightarrow> rsa_oaep_encrypt L sk rnd p)"
  by (simp_all add: encrypt_with_key_def)

lemma gcm_seal_fails:
  assumes "(case aes_gcm_encrypt L key n p of
              Inl e \<Rightarrow> Inl e
            | Inr (ct, tag) \<Rightarrow> Inr (f ct tag)) = Inl e"
  shows "lib_raises L e"
proof (cases "aes_gcm_encrypt L key n p")
  case (Inl e')
  with assms have "e' = e" by simp
  with Inl show ?thesis by (intro lib_raises.gcm_enc) simp
next
  case (Inr r)
  with assms show ?thesis by (cases r) simp
qed

lemma cipher_seal_fails:
  assumes "(case x of Inl e \<Rightarrow> Inl e | Inr ct \<Rightarrow> Inr (f ct)) = Inl e"
  shows "x = Inl e"
  using assms by (cases x) simp_all

lemma rsa_seal_fails:
  assumes "(case load_pem_private_key L key of
              Inl e \<Rightarrow> Inl e | Inr sk \<Rightarrow> rsa_oaep_encrypt L sk rnd p) = Inl e"
  shows "lib_raises L e"
  using assms
proof (cases rule: case_sum_fails)
  case 1 then show ?thesis by (rule lib_raises.load_pem)
next
  case (2 sk) then show ?thesis by (intro lib_raises.rsa_enc)
qed

lemma ecdsa_seal_fails:
  assumes "(case load_pem_private_key L key of
        Inl e \<Rightarrow> Inl e
      | Inr sk \<Rightarrow> (case ecdsa_sign L sk rnd p of
                    Inl e \<Rightarrow> Inl e
                  | Inr signature \<Rightarrow> Inr (f signature))) = Inl e"
  shows "lib_raises L e"
  using assms
proof (cases rule: case_sum_fails)
  case 1 then show ?thesis by (rule lib_raises.load_pem)
next
  case (2 sk)
  from cipher_seal_fails [OF 2(2)] show ?thesis by (rule lib_raises.ecdsa)
qed

lemma ed25519_seal_fails:
  assumes "(case load_pem_private_key L key of
        Inl e \<Rightarrow> Inl e
      | Inr sk \<Rightarrow> (case ed25519_sign L sk p of
                    Inl e \<Rightarrow> Inl e
                  | Inr signature \<Rightarrow> Inr (f signature))) = Inl e"
  shows "lib_raises L e"
  using assms
proof (cases rule: case_sum_fails)
  case 1 then show ?thesis by (rule lib_raises.load_pem)
next
  case (2 sk)
  from cipher_seal_fails [OF 2(2)] show ?thesis by (rule lib_raises.ed25519)
qed

lemma seal_fails:
  assumes fail: "encrypt_with_key L rnd p key kt = Inl e"
  shows "e = ValueError (''Unsupported key type: '' @ kt) \<or> lib_raises L e"
proof (cases "kt \<in> set supported_key_types")
  case False
  from fail unsupported_seal [OF False] show ?thesis by simp
next
  case True
  then show ?thesis
  proof (cases rule: supported_cases)
    case 1 from fail [unfolded 1 seal_gcm] show ?thesis by (intro disjI2 gcm_seal_fails)
  next
    case 2 from fail [unfolded 2 seal_gcm] show ?thesis by (intro disjI2 gcm_seal_fails)
  next
    case 3 from cipher_seal_fails [OF fail [unfolded 3 seal_cbc]] show ?thesis
      by (intro disjI2 lib_raises.cbc_enc)
  next
    case 4 from cipher_seal_fails [OF fail [unfolded 4 seal_chacha]] show ?thesis
      by (intro disjI2 lib_raises.chacha_enc)
  next
    case 5 from fail [unfolded 5 seal_rsa] show ?thesis by (intro disjI2 rsa_seal_fails)
  next
    case 6 from fail [unfolded 6 seal_rsa] show ?thesis by (intro disjI2 rsa_seal_fails)
  next
    case 7 from fail [unfolded 7 seal_rsa] show ?thesis by (intro disjI2 rsa_seal_fails)
  next
    case 8 from fail [unfolded 8 seal_ecdsa] show ?thesis by (intro disjI2 ecdsa_seal_fails)
  next
    case 9 from fail [unfolded 9 seal_ecdsa] show ?thesis by (intro disjI2 ecdsa_seal_fails)
  next
    case 10 from fail [unfolded 10 seal_ed25519] show ?thesis by (intro disjI2 ed25519_seal_fails)
  next
    case 11 from fail [unfolded 11 seal_hmac] show ?thesis by simp
  next
    case 12 from fail [unfolded 12 seal_hmac] show ?thesis by simp
  qed
qed

lemma unwrap_fails:
  assumes "decrypt_key_with_master L cfg buf = Inl e"
  shows "lib_raises L e"
  using assms unfolding decrypt_key_with_master_def Let_def by (rule lib_raises.gcm_dec)

lemma demo_bad_mac:
  "decrypt_with_key demo_lib ''hello|HMAC|tag'' ''key'' ''HMAC256''
     = Inl (ValueError ''HMAC verification failed'')"
proof -
  have "length (hmac_digest demo_lib sha256 ''key'' ''hello'') = 32"
    using demo_hmac_sized unfolding hmac_sized_def by simp
  then have "length ''tag'' \<noteq> length (hmac_digest demo_lib sha256 ''key'' ''hello'')"
    by simp
  then have "''tag'' \<noteq> hmac_digest demo_lib sha256 ''key'' ''hello''"
    by (rule contrapos_nn) (rule arg_cong)
  then show ?thesis unfolding open_hmac by simp
qed

subsection \<open>Where the round trip does hold\<close>

text \<open>
  Under an AES-GCM key the sealed text opens to itself. Under an HMAC key it does when the
  first marker of the sealed buffer is the one that sealing appended, that is when the
  plaintext followed by the marker has no earlier occurrence of the marker.
\<close>

lemma hmac_roundtrip_without_marker:
  assumes first: "split_once ''|HMAC|'' (p @ ''|HMAC|'') = Some (p, [])"
    and valid: "utf8_valid L p"
  shows "decrypt_with_key L (p @ ''|HMAC|'' @ hmac_digest L sha256 key p) key ''HMAC256'' = Inr p"
proof -
  from split_once_append [OF first, of "hmac_digest L sha256 key p"]
  have "split_once ''|HMAC|'' (p @ ''|HMAC|'' @ hmac_digest L sha256 key p)
          = Some (p, hmac_digest L sha256 key p)"
    by simp
  with valid show ?thesis unfolding open_hmac by (simp add: decode_utf8_def)
qed

lemma gcm_seal_open_roundtrip:
  assumes lib: "gcm_correct L" and key: "length key \<in> {16, 24, 32}" and valid: "utf8_valid L p"
  shows "\<exists>sealed. encrypt_with_key L rnd p key ''AES256GCM'' = Inr sealed
            \<and> decrypt_with_key L sealed key ''AES256GCM'' = Inr p"
proof -
  from lib key length_token_bytes [of rnd 12] obtain ct tag where
    enc: "aes_gcm_encrypt L key (token_bytes rnd 12) p = Inr (ct, tag)" and tag: "length tag = 16"
    and dec: "aes_gcm_decrypt L key (token_bytes rnd 12) tag ct = Inr p"
    unfolding gcm_correct_def by blast
  from enc have s: "encrypt_with_key L rnd p key ''AES256GCM'' = Inr (token_bytes rnd 12 @ tag @ ct)"
    unfolding seal_gcm by simp
  from tag dec valid
  have "decrypt_with_key L (token_bytes rnd 12 @ tag @ ct) key ''AES256GCM'' = Inr p"
    unfolding open_gcm by (simp add: length_token_bytes decode_utf8_def)
  with s show ?thesis by blast
qed

subsection \<open>Rows and handlers\<close>

lemma crypto_keys_log_audit:
  "crypto_keys (log_audit L cfg d uid act rtype rid ip st det ua now) = crypto_keys d"
  by (simp add: log_audit_def Let_def)

lemma find_row_id:
  "find (\<lambda>k. row_id k = i) rows = Some k \<Longrightarrow> row_id k = i"
  by (induction rows) (auto split: if_splits)

lemma find_update_row:
  "find (\<lambda>k. row_id k = i) rows = Some k \<Longrightarrow> row_id k' = i \<Longrightarrow>
   find (\<lambda>k. row_id k = i) (update_row k' rows) = Some k'"
  by (induction rows) (auto split: if_splits)

lemma gcm_wrap:
  assumes lib: "gcm_correct L" and master: "32 \<le> length (MASTER_KEY cfg)"
  shows "\<exists>ct tag. aes_gcm_encrypt L (take 32 (MASTER_KEY cfg)) (token_bytes rnd 12) K = Inr (ct, tag)
           \<and> length tag = 16
           \<and> aes_gcm_decrypt L (take 32 (MASTER_KEY cfg)) (token_bytes rnd 12) tag ct = Inr K"
proof -
  from master have "length (take 32 (MASTER_KEY cfg)) \<in> {16, 24, 32}" by simp
  moreover have "length (token_bytes rnd 12) = 12" by (rule length_token_bytes)
  ultimately show ?thesis using lib unfolding gcm_correct_def by blast
qed

lemma revoke_key_found:
  assumes admin: "require_role L (role rq) [''admin''] = None"
    and found: "find (\<lambda>k. row_id k = key_id) (crypto_keys d) = Some k"
  shows "revoke_key L cfg rq key_id d =
     (Inr (response_of_key
             (k\<lparr>is_revoked := True, is_active := False, revoked_at := Some (utcnow rq 0)\<rparr>)),
      log_audit L cfg
        (d\<lparr>crypto_keys :=
             update_row (k\<lparr>is_revoked := True, is_active := False,
                            revoked_at := Some (utcnow rq 0)\<rparr>) (crypto_keys d)\<rparr>)
        (Some (sub rq)) ''revoke_key'' ''key'' (Some (int_repr key_id)) ''127.0.0.1''
        ''success'' None None (utcnow rq 1))"
  using admin found unfolding revoke_key_def by (simp add: Let_def)

lemma demo_admin: "require_role demo_lib (role demo_request) [''admin''] = None"
  by (simp add: demo_lib_def demo_request_def)

lemma demo_find:
  "row_id k = 7 \<Longrightarrow> find (\<lambda>k. row_id k = 7) (crypto_keys (demo_db k)) = Some k"
  by (simp add: demo_db_def)

lemma demo_update:
  "row_id k = row_id k' \<Longrightarrow> update_row k' (crypto_keys (demo_db k)) = [k']"
  by (simp add: demo_db_def)

lemma demo_revoked_key_fields:
  "row_id demo_revoked_key = 7" "is_revoked demo_revoked_key" "\<not> is_active demo_revoked_key"
  "revoked_at demo_revoked_key = Some 100"
  by (simp_all add: demo_revoked_key_def demo_key_def)


lemma revoke_revoked_row:
  assumes revoked: "is_revoked k" and inactive: "\<not> is_active k"
  shows "k\<lparr>is_revoked := True, is_active := False, revoked_at := t\<rparr> = k\<lparr>revoked_at := t\<rparr>"
  using assms by (cases k) simp


lemma rotate_key_found:
  assumes admin: "require_role L (role rq) [''admin''] = None"
    and found: "find (\<lambda>k. row_id k = key_id) (crypto_keys d) = Some k"
    and active: "\<not> is_revoked k"
    and gen: "generate_key L (urandom rq 0) (key_type k) = Inr raw"
    and wrap: "encrypt_key_with_master L cfg (urandom rq 1) raw = Inr wrapped"
  shows "rotate_key L cfg rq key_id d =
     (Inr (response_of_key
             (k\<lparr>encrypted_key := wrapped, key_version := key_version k + 1,
                 rotated_at := Some (utcnow rq 0)\<rparr>)),
      log_audit L cfg
        (d\<lparr>crypto_keys :=
             update_row (k\<lparr>encrypted_key := wrapped, key_version := key_version k + 1,
                            rotated_at := Some (utcnow rq 0)\<rparr>) (crypto_keys d)\<rparr>)
        (Some (sub rq)) ''rotate_key'' ''key'' (Some (int_repr key_id)) ''127.0.0.1''
        ''success'' None None (utcnow rq 1))"
  using admin found active gen wrap unfolding rotate_key_def by (simp add: Let_def)

lemma rotate_key_absent:
  assumes admin: "require_role L (role rq) [''admin''] = None"
    and absent: "find (\<lambda>k. row_id k = key_id) (crypto_keys d) = None"
  shows "rotate_key L cfg rq key_id d = (Inl (HTTPException 404 ''Key not found''), d)"
  using admin absent unfolding rotate_key_def by simp

lemma rotate_key_revoked:
  assumes admin: "require_role L (role rq) [''admin''] = None"
    and found: "find (\<lambda>k. row_id k = key_id) (crypto_keys d) = Some k"
    and revoked: "is_revoked k"
  shows "rotate_key L cfg rq key_id d = (Inl (HTTPException 400 ''Cannot rotate a revoked key''), d)"
  using admin found revoked unfolding rotate_key_def by simp

lemma wrap_unwrap:
  assumes lib: "gcm_correct L" and master: "32 \<le> length (MASTER_KEY cfg)"
  shows "\<exists>wrapped. encrypt_key_with_master L cfg rnd K = Inr wrapped
            \<and> decrypt_key_with_master L cfg wrapped = Inr K"
proof -
  from gcm_wrap [OF lib master, of rnd K] obtain ct tag where
    enc: "aes_gcm_encrypt L (take 32 (MASTER_KEY cfg)) (token_bytes rnd 12) K = Inr (ct, tag)"
    and tag: "length tag = 16"
    and dec: "aes_gcm_decrypt L (take 32 (MASTER_KEY cfg)) (token_bytes rnd 12) tag ct = Inr K"
    by blast
  from enc have w: "encrypt_key_with_master L cfg rnd K = Inr (token_bytes rnd 12 @ tag @ ct)"
    by (simp add: encrypt_key_with_master_def)
  from tag dec have "decrypt_key_with_master L cfg (token_bytes rnd 12 @ tag @ ct) = Inr K"
    by (simp add: decrypt_key_with_master_def length_token_bytes)
  with w show ?thesis by blast
qed

lemma encrypt_data_found:
  assumes found: "find (\<lambda>k. row_id k = key_id) (crypto_keys d) = Some k"
  shows "encrypt_data L cfg rq key_id plaintext d =
     (if \<not> is_active k \<or> is_revoked k
      then (Inl (HTTPException 400 ''Key is not active or has been revoked''),
            log_audit L cfg d (Some (sub rq)) ''encrypt'' ''data'' (Some (int_repr key_id))
              ''127.0.0.1'' ''failure'' None None (utcnow rq 0))
      else (case (case decrypt_key_with_master L cfg (encrypted_key k) of
                    Inl e \<Rightarrow> Inl e
                  | Inr raw_key \<Rightarrow> encrypt_with_key L (urandom rq 0) plaintext raw_key (key_type k)) of
              Inl e \<Rightarrow>
                (Inl (HTTPException 500 (''Encryption failed: '' @ exn_str e)),
                 log_audit L cfg d (Some (sub rq)) ''encrypt'' ''data'' (Some (int_repr key_id))
                   ''127.0.0.1'' ''failure'' None None (utcnow rq 0))
            | Inr ciphertext \<Rightarrow>
                (Inr (EncryptResponse (b64encode L ciphertext) (row_id k) (key_version k)),
                 log_audit L cfg d (Some (sub rq)) ''encrypt'' ''data'' (Some (int_repr key_id))
                   ''127.0.0.1'' ''success'' None None (utcnow rq 0))))"
  unfolding encrypt_data_def Let_def found by simp

lemma decrypt_data_found:
  assumes found: "find (\<lambda>k. row_id k = key_id) (crypto_keys d) = Some k"
  shows "decrypt_data L cfg rq key_id ciphertext d =
     (if \<not> is_active k \<and> \<not> is_revoked k
      then (Inl (HTTPException 400 ''Key is not available''),
            log_audit L cfg d (Some (sub rq)) ''decrypt'' ''data'' (Some (int_repr key_id))
              ''127.0.0.1'' ''failure'' None None (utcnow rq 0))
      else (case (case decrypt_key_with_master L cfg (encrypted_key k) of
                    Inl e \<Rightarrow> Inl e
                  | Inr raw_key \<Rightarrow>
                      (case b64decode L ciphertext of
                         Inl e \<Rightarrow> Inl e
                       | Inr ciphertext_bytes \<Rightarrow>
                           decrypt_with_key L ciphertext_bytes raw_key (key_type k))) of
              Inl e \<Rightarrow>
                (Inl (HTTPException 500 (''Decryption failed: '' @ exn_str e)),
                 log_audit L cfg d (Some (sub rq)) ''decrypt'' ''data'' (Some (int_repr key_id))
                   ''127.0.0.1'' ''failure'' None None (utcnow rq 0))
            | Inr plaintext \<Rightarrow>
                (Inr (DecryptResponse plaintext (row_id k) (key_version k)),
                 log_audit L cfg d (Some (sub rq)) ''decrypt'' ''data'' (Some (int_repr key_id))
                   ''127.0.0.1'' ''success'' None None (utcnow rq 0))))"
  unfolding decrypt_data_def Let_def found by simp

lemma fst_case_sum:
  "fst (case x of Inl e \<Rightarrow> (Inl (f e), a e) | Inr v \<Rightarrow> (Inr (g v), b v)) =
     (case x of Inl e \<Rightarrow> Inl (f e) | Inr v \<Rightarrow> Inr (g v))"
  by (cases x) simp_all

lemma create_key_row:
  assumes "create_key L cfg rq new_id key_name kt d = (Inr response, d')"
  shows "\<exists>k. crypto_keys d' = crypto_keys d @ [k] \<and> response = response_of_key k
             \<and> row_id k = new_id \<and> key_type k = kt \<and> kt \<in> set supported_key_types
             \<and> key_version k = 1 \<and> is_active k \<and> \<not> is_revoked k"
proof -
  from assms have admin: "require_role L (role rq) [''admin''] = None"
    unfolding create_key_def by (cases "require_role L (role rq) [''admin'']") simp_all
  from assms admin have sup: "kt \<in> set supported_key_types"
    unfolding create_key_def by (cases "kt \<in> set supported_key_types") simp_all
  let ?w = "case generate_key L (urandom rq 0) kt of
              Inl e \<Rightarrow> Inl e
            | Inr raw_key \<Rightarrow> encrypt_key_with_master L cfg (urandom rq 1) raw_key"
  show ?thesis
  proof (cases ?w)
    case (Inl e)
    with assms admin sup show ?thesis unfolding create_key_def by simp
  next
    case (Inr wrapped)
    with assms admin sup show ?thesis
      unfolding create_key_def by (auto simp: Let_def crypto_keys_log_audit)
  qed
qed

lemma encrypt_data_keeps_keys:
  "crypto_keys (snd (encrypt_data L cfg rq key_id plaintext d)) = crypto_keys d"
  unfolding encrypt_data_def Let_def
  by (simp add: crypto_keys_log_audit split: option.split sum.split)

lemma decrypt_data_keeps_keys:
  "crypto_keys (snd (decrypt_data L cfg rq key_id ciphertext d)) = crypto_keys d"
  unfolding decrypt_data_def Let_def
  by (simp add: crypto_keys_log_audit split: option.split sum.split)

lemma rotate_key_if_needed_True:
  assumes "rotate_key_if_needed L cfg rq d key rotation_days = Inr (True, d')"
  shows "should_rotate_key L (utcnow rq 0) key rotation_days = Inr True \<and>
         (\<exists>raw wrapped. generate_key L (urandom rq 0) (key_type key) = Inr raw
            \<and> encrypt_key_with_master L cfg (urandom rq 1) raw = Inr wrapped
            \<and> d' = d\<lparr>crypto_keys :=
                       update_row (key\<lparr>encrypted_key := wrapped,
                                       key_version := key_version key + 1,
                                       rotated_at := Some (utcnow rq 1)\<rparr>) (crypto_keys d)\<rparr>)"
  using assms unfolding rotate_key_if_needed_def
  by (auto simp: Let_def split: if_splits sum.splits)

lemma load_master_key_length:
  "load_master_key v = Inr key \<Longrightarrow> 32 \<le> length key"
  by (auto simp: load_master_key_def Let_def split: option.splits if_splits)

lemma fromhex_zeros:
  "bytes_fromhex ''0000000000000000000000000000000000000000000000000000000000000000''
     = Some (replicate 32 (CHR 0x00))"
  by code_simp

lemma load_master_key_hex:
  "s \<noteq> [] \<Longrightarrow> bytes_fromhex s = Some b \<Longrightarrow> 32 \<le> length b \<Longrightarrow>
   load_master_key (Some s) = Inr b"
  by (simp add: load_master_key_def)

lemma load_master_key_zeros:
  "load_master_key (Some ''0000000000000000000000000000000000000000000000000000000000000000'')
     = Inr (replicate 32 (CHR 0x00))"
  by (rule load_master_key_hex [OF _ fromhex_zeros]) simp_all

lemma startup_hex_zeros:
  "startup [''MASTER_KEY'' \<mapsto> ''0000000000000000000000000000000000000000000000000000000000000000'']
     = Inr \<lparr>MASTER_KEY = replicate 32 (CHR 0x00), AUDIT_SECRET = ''audit-secret-key-change-this''\<rparr>"
proof -
  let ?env = "[''MASTER_KEY'' \<mapsto> ''0000000000000000000000000000000000000000000000000000000000000000'']"
  have m: "?env ''MASTER_KEY'' = Some ''0000000000000000000000000000000000000000000000000000000000000000''"
    by simp
  have a: "?env ''AUDIT_SECRET'' = None" by simp
  show ?thesis
    unfolding startup_def m a load_master_key_zeros by (simp add: load_audit_secret_def)
qed

subsection \<open>The sizes and kinds of key material\<close>

lemma generate_key_material:
  assumes "kt \<in> set supported_key_types"
  shows "generate_key L rnd kt = Inr (spec_key_material L rnd kt)"
proof -
  from assms have "kt = ''AES128GCM'' \<or> kt = ''AES256GCM'' \<or> kt = ''AES256CBC''
      \<or> kt = ''ChaCha20Poly1305'' \<or> kt = ''RSA'' \<or> kt = ''RSA2048'' \<or> kt = ''RSA4096''
      \<or> kt = ''ECC256'' \<or> kt = ''ECC384'' \<or> kt = ''Ed25519'' \<or> kt = ''HMAC256''
      \<or> kt = ''HMAC512''"
    by (simp add: supported_key_types_def)
  then show ?thesis
    by (elim disjE) (simp_all add: generate_key_def spec_key_material_def)
qed

lemma spec_key_material_sizes:
  "length (spec_key_material L rnd ''AES128GCM'') = 16"
  "length (spec_key_material L rnd ''AES256GCM'') = 32"
  "length (spec_key_material L rnd ''AES256CBC'') = 32"
  "length (spec_key_material L rnd ''ChaCha20Poly1305'') = 32"
  "length (spec_key_material L rnd ''HMAC256'') = 32"
  "length (spec_key_material L rnd ''HMAC512'') = 64"
  by (simp_all add: spec_key_material_def length_token_bytes)

lemma spec_key_material_keys:
  "spec_key_material L rnd ''RSA2048'' = rsa_private_pem L rnd 2048"
  "spec_key_material L rnd ''RSA'' = rsa_private_pem L rnd 2048"
  "spec_key_material L rnd ''RSA4096'' = rsa_private_pem L rnd 4096"
  "spec_key_material L rnd ''ECC256'' = ec_private_pem L rnd ''secp256r1''"
  "spec_key_material L rnd ''ECC384'' = ec_private_pem L rnd ''secp384r1''"
  "spec_key_material L rnd ''Ed25519'' = ed25519_private_pem L rnd"
  by (simp_all add: spec_key_material_def)

text \<open>The sweep makes the same replacement on a record that is due.\<close>

lemma rotate_key_if_needed_due:
  assumes due: "should_rotate_key L (utcnow rq 0) key rotation_days = Inr True"
    and sup: "key_type key \<in> set supported_key_types"
    and lib: "gcm_correct L" and master: "32 \<le> length (MASTER_KEY cfg)"
  shows "\<exists>tag ct.
           aes_gcm_encrypt L (take 32 (MASTER_KEY cfg)) (token_bytes (urandom rq 1) 12)
               (spec_key_material L (urandom rq 0) (key_type key)) = Inr (ct, tag)
         \<and> length tag = 16
         \<and> rotate_key_if_needed L cfg rq d key rotation_days
             = Inr (True,
                    d\<lparr>crypto_keys :=
                        update_row (key\<lparr>encrypted_key := token_bytes (urandom rq 1) 12 @ tag @ ct,
                                        key_version := key_version key + 1,
                                        rotated_at := Some (utcnow rq 1)\<rparr>) (crypto_keys d)\<rparr>)"
proof -
  from gcm_wrap [OF lib master, of "urandom rq 1" "spec_key_material L (urandom rq 0) (key_type key)"]
  obtain ct tag where
    enc: "aes_gcm_encrypt L (take 32 (MASTER_KEY cfg)) (token_bytes (urandom rq 1) 12)
            (spec_key_material L (urandom rq 0) (key_type key)) = Inr (ct, tag)"
    and tag: "length tag = 16"
    by blast
  from enc have wrap: "encrypt_key_with_master L cfg (urandom rq 1)
       (spec_key_material L (urandom rq 0) (key_type key))
     = Inr (token_bytes (urandom rq 1) 12 @ tag @ ct)"
    by (simp add: encrypt_key_with_master_def)
  have "rotate_key_if_needed L cfg rq d key rotation_days
             = Inr (True,
                    d\<lparr>crypto_keys :=
                        update_row (key\<lparr>encrypted_key := token_bytes (urandom rq 1) 12 @ tag @ ct,
                                        key_version := key_version key + 1,
                                        rotated_at := Some (utcnow rq 1)\<rparr>) (crypto_keys d)\<rparr>)"
    unfolding rotate_key_if_needed_def due generate_key_material [OF sup]
    using wrap by (simp add: Let_def)
  with enc tag show ?thesis by blast
qed

lemma rotate_key_if_needed_raises:
  "should_rotate_key L (utcnow rq 0) key rotation_days = Inl e \<Longrightarrow>
   rotate_key_if_needed L cfg rq d key rotation_days = Inl e"
  by (simp add: rotate_key_if_needed_def)

lemma token_bytes_const: "token_bytes (\<lambda>i. c) n = replicate n c"
  by (simp add: token_bytes_def map_replicate_const)

lemma demo_urandom:
  "urandom demo_request 0 = (\<lambda>i. CHR ''r'')" "urandom demo_request 1 = (\<lambda>i. CHR ''n'')"
  by (simp_all add: demo_request_def)

lemma demo_gcm_encrypt:
  "8 \<le> length nonce \<Longrightarrow> length nonce \<le> 128 \<Longrightarrow>
   aes_gcm_encrypt demo_lib (take 32 (MASTER_KEY demo_cfg)) nonce pt
     = Inr (pt, replicate 16 (CHR ''t''))"
  by (simp add: demo_lib_def demo_cfg_def)

lemma demo_old_wrap:
  "replicate 12 (CHR ''n'') @ replicate 16 (CHR ''t'') @ replicate 32 (CHR ''r'')
     \<noteq> encrypted_key demo_key"
proof
  assume "replicate 12 (CHR ''n'') @ replicate 16 (CHR ''t'') @ replicate 32 (CHR ''r'')
     = encrypted_key demo_key"
  then have "hd (replicate 12 (CHR ''n'') @ replicate 16 (CHR ''t'') @ replicate 32 (CHR ''r''))
     = hd (encrypted_key demo_key)" by simp
  then show False by (simp add: demo_key_def)
qed

subsection \<open>The envelope on damaged buffers\<close>

lemma unwrap_passes_slices:
  "decrypt_key_with_master L cfg buf
     = aes_gcm_decrypt L (take 32 (MASTER_KEY cfg)) (take 12 buf) (take 16 (drop 12 buf)) (drop 28 buf)"
  by (simp add: decrypt_key_with_master_def)

lemma unwrap_short_buffer:
  assumes lib: "gcm_rejects_short_tag L" and short: "length buf < 28"
  shows "\<exists>m. decrypt_key_with_master L cfg buf = Inl (ValueError m)"
proof -
  from short have "length (take 16 (drop 12 buf)) < 16" by simp
  with lib show ?thesis unfolding unwrap_passes_slices gcm_rejects_short_tag_def by blast
qed

lemma unwrap_tag_mismatch:
  assumes correct: "gcm_correct L" and authentic: "gcm_authentic L"
    and master: "32 \<le> length (MASTER_KEY cfg)"
    and wrap: "encrypt_key_with_master L cfg rnd K = Inr wrapped"
    and len: "length tag' = 16" and other: "tag' \<noteq> take 16 (drop 12 wrapped)"
  shows "decrypt_key_with_master L cfg (take 12 wrapped @ tag' @ drop 28 wrapped)
           = Inl (Exn ''InvalidTag'' [])"
proof -
  from gcm_wrap [OF correct master, of rnd K] obtain ct tag where
    enc: "aes_gcm_encrypt L (take 32 (MASTER_KEY cfg)) (token_bytes rnd 12) K = Inr (ct, tag)"
    and tag: "length tag = 16"
    by blast
  from enc wrap have w: "wrapped = token_bytes rnd 12 @ tag @ ct"
    by (simp add: encrypt_key_with_master_def)
  from tag have parts: "take 12 wrapped = token_bytes rnd 12" "take 16 (drop 12 wrapped) = tag"
    "drop 28 wrapped = ct"
    unfolding w by (simp_all add: length_token_bytes)
  from other have ne: "tag' \<noteq> tag" unfolding parts .
  from authentic enc len ne
  have "aes_gcm_decrypt L (take 32 (MASTER_KEY cfg)) (token_bytes rnd 12) tag' ct
          = Inl (Exn ''InvalidTag'' [])"
    unfolding gcm_authentic_def by blast
  with len show ?thesis
    unfolding unwrap_passes_slices parts by (simp add: length_token_bytes)
qed

lemma hmac_format_or_integrity:
  assumes "kt = ''HMAC256'' \<or> kt = ''HMAC512''"
  shows "split_once ''|HMAC|'' c = None \<Longrightarrow>
           decrypt_with_key L c key kt = Inl (ValueError ''Invalid HMAC format'')"
    and "split_once ''|HMAC|'' c = Some (pp, hp) \<Longrightarrow>
         hp \<noteq> hmac_digest L (if kt = ''HMAC256'' then sha256 else sha512) key pp \<Longrightarrow>
           decrypt_with_key L c key kt = Inl (ValueError ''HMAC verification failed'')"
  using assms by (auto simp: open_hmac)

lemma ecdsa_format_or_integrity:
  assumes "kt = ''ECC256'' \<or> kt = ''ECC384''"
  shows "split_once ''|ECC|'' c = None \<Longrightarrow>
           decrypt_with_key L c key kt = Inl (ValueError ''Invalid ECC signature format'')"
    and "split_once ''|ECC|'' c = Some (pp, sp) \<Longrightarrow> load_pem_private_key L key = Inr sk \<Longrightarrow>
         \<not> ecdsa_verify L sk sp pp \<Longrightarrow>
           decrypt_with_key L c key kt = Inl (ValueError ''ECC signature verification failed'')"
  using assms by (auto simp: open_ecdsa)

lemma ed25519_format_or_integrity:
  shows "split_once ''|Ed25519|'' c = None \<Longrightarrow>
           decrypt_with_key L c key ''Ed25519''
             = Inl (ValueError ''Invalid Ed25519 signature format'')"
    and "split_once ''|Ed25519|'' c = Some (pp, sp) \<Longrightarrow> load_pem_private_key L key = Inr sk \<Longrightarrow>
         \<not> ed25519_verify L sk sp pp \<Longrightarrow>
           decrypt_with_key L c key ''Ed25519''
             = Inl (ValueError ''Ed25519 signature verification failed'')"
  by (simp_all add: open_ed25519)

lemma demo_gcm_rejects_short_tag: "gcm_rejects_short_tag demo_lib"
  by (simp add: gcm_rejects_short_tag_def demo_lib_def)

lemma demo_gcm_authentic: "gcm_authentic demo_lib"
  by (auto simp: gcm_authentic_def demo_lib_def split: if_splits)

lemma demo_short_buffer:
  "decrypt_key_with_master demo_lib demo_cfg ''01234567890123456789''
     = Inl (ValueError ''Authentication tag must be 16 bytes or longer.'')"
  by (simp add: decrypt_key_with_master_def demo_lib_def demo_cfg_def)

lemma demo_wrap:
  "encrypt_key_with_master demo_lib demo_cfg (\<lambda>i. CHR ''n'') K
     = Inr (replicate 12 (CHR ''n'') @ replicate 16 (CHR ''t'') @ K)"
  by (simp add: encrypt_key_with_master_def token_bytes_const demo_lib_def demo_cfg_def)

subsection \<open>The sealed buffer split inside the plaintext\<close>





subsection \<open>The rotation threshold\<close>

lemma should_rotate_key_skips:
  "is_revoked key \<or> \<not> is_active key \<Longrightarrow> should_rotate_key L now key rotation_days = Inr False"
  by (simp add: should_rotate_key_def)

lemma should_rotate_key_computes:
  assumes "\<not> is_revoked key" and "is_active key"
  shows "should_rotate_key L now key rotation_days =
     (if 999999999 < \<bar>rotation_days\<bar>
        then Inl (Exn ''OverflowError'' (timedelta_overflow_text L rotation_days))
      else if now - timedelta_days rotation_days < datetime_min
              \<or> datetime_max < now - timedelta_days rotation_days
        then Inl (Exn ''OverflowError'' ''date value out of range'')
      else Inr ((case rotated_at key of Some t \<Rightarrow> t | None \<Rightarrow> created_at key)
                  < now - timedelta_days rotation_days))"
  using assms by (simp add: should_rotate_key_def timedelta_def datetime_sub_def Let_def)

lemma demo_times:
  "timedelta_days 90 = 7776000000000" "datetime_min = 0" "datetime_max = 315537897599999999"
  by (simp_all add: timedelta_days_def datetime_min_def datetime_max_def)

subsection \<open>The canonical text and the hexadecimal tag\<close>

lemma sort_audit_fields:
  "sort_key fst [(''user_id'', a), (''action'', b), (''resource_type'', c), (''resource_id'', e),
                 (''ip_address'', f), (''status'', g), (''details'', h), (''user_agent'', i),
                 (''timestamp'', j)]
   = [(''action'', b), (''details'', h), (''ip_address'', f), (''resource_id'', e),
      (''resource_type'', c), (''status'', g), (''timestamp'', j), (''user_agent'', i),
      (''user_id'', a)]"
  by simp

lemma json_dumps_audit:
  "json_dumps L [(''user_id'', a), (''action'', b), (''resource_type'', c), (''resource_id'', e),
                 (''ip_address'', f), (''status'', g), (''details'', h), (''user_agent'', i),
                 (''timestamp'', j)]
   = ''{''
     @ encode_basestring_ascii L ''action'' @ '':'' @ json_value L b @ '',''
     @ encode_basestring_ascii L ''details'' @ '':'' @ json_value L h @ '',''
     @ encode_basestring_ascii L ''ip_address'' @ '':'' @ json_value L f @ '',''
     @ encode_basestring_ascii L ''resource_id'' @ '':'' @ json_value L e @ '',''
     @ encode_basestring_ascii L ''resource_type'' @ '':'' @ json_value L c @ '',''
     @ encode_basestring_ascii L ''status'' @ '':'' @ json_value L g @ '',''
     @ encode_basestring_ascii L ''timestamp'' @ '':'' @ json_value L j @ '',''
     @ encode_basestring_ascii L ''user_agent'' @ '':'' @ json_value L i @ '',''
     @ encode_basestring_ascii L ''user_id'' @ '':'' @ json_value L a
     @ ''}''"
  unfolding json_dumps_def sort_audit_fields by simp

lemma hex_digit_table:
  "\<forall>m \<in> set [0..<16]. hex_digit m \<in> set ''0123456789abcdef''"
  by code_simp

lemma of_char_hex_digit:
  "m < 16 \<Longrightarrow> (of_char (hex_digit m) :: nat) = (if m < 10 then 48 + m else 87 + m)"
  by (simp add: hex_digit_def)

lemma hex_digit_props:
  assumes "m < 16"
  shows "hex_digit m \<in> set ''0123456789abcdef''" "(of_char (hex_digit m) :: nat) < 128"
    "n < 16 \<Longrightarrow> hex_digit m = hex_digit n \<Longrightarrow> m = n"
proof -
  from hex_digit_table assms show "hex_digit m \<in> set ''0123456789abcdef''"
    by (simp del: set_simps)
  from assms show "(of_char (hex_digit m) :: nat) < 128"
    by (simp add: of_char_hex_digit)
  assume n: "n < 16" and e: "hex_digit m = hex_digit n"
  from e have "(of_char (hex_digit m) :: nat) = of_char (hex_digit n)" by simp
  with assms n show "m = n"
    by (simp add: of_char_hex_digit split: if_splits)
qed

lemma of_char_div_mod:
  "(of_char c :: nat) div 16 < 16" "(of_char c :: nat) mod 16 < 16"
proof -
  have "(of_char c :: nat) < 256" by simp
  then show "(of_char c :: nat) div 16 < 16" by (intro less_mult_imp_div_less) simp
  show "(of_char c :: nat) mod 16 < 16" by simp
qed

lemma length_hex_of_bytes: "length (hex_of_bytes bs) = 2 * length bs"
  by (induction bs) (simp_all add: hex_of_bytes_def)

lemma set_hex_of_bytes: "set (hex_of_bytes bs) \<subseteq> set ''0123456789abcdef''"
proof (induction bs)
  case Nil
  show ?case by (simp add: hex_of_bytes_def)
next
  case (Cons c bs)
  have "hex_of_bytes (c # bs) =
      hex_digit ((of_char c :: nat) div 16) # hex_digit ((of_char c :: nat) mod 16) # hex_of_bytes bs"
    by (simp add: hex_of_bytes_def)
  with Cons hex_digit_props(1) [OF of_char_div_mod(1) [of c]] hex_digit_props(1) [OF of_char_div_mod(2) [of c]]
  show ?case by (simp del: set_simps add: set_simps(2))
qed

lemma is_ascii_hex_of_bytes: "is_ascii (hex_of_bytes bs)"
proof (induction bs)
  case Nil
  show ?case by (simp add: hex_of_bytes_def is_ascii_def)
next
  case (Cons c bs)
  have "hex_of_bytes (c # bs) =
      hex_digit ((of_char c :: nat) div 16) # hex_digit ((of_char c :: nat) mod 16) # hex_of_bytes bs"
    by (simp add: hex_of_bytes_def)
  with Cons hex_digit_props(2) [OF of_char_div_mod(1) [of c]] hex_digit_props(2) [OF of_char_div_mod(2) [of c]]
  show ?case by (simp add: is_ascii_def)
qed

lemma hex_of_bytes_inj: "hex_of_bytes bs = hex_of_bytes bs' \<Longrightarrow> bs = bs'"
proof (induction bs arbitrary: bs')
  case Nil
  from Nil have "length (hex_of_bytes bs') = 0" by (simp add: hex_of_bytes_def)
  then show ?case by (simp add: length_hex_of_bytes)
next
  case (Cons c bs)
  from Cons.prems have "length (hex_of_bytes bs') = length (hex_of_bytes (c # bs))" by simp
  then obtain c' bs'' where b: "bs' = c' # bs''"
    by (cases bs') (simp_all add: length_hex_of_bytes)
  have u: "hex_of_bytes (x # xs) =
      hex_digit ((of_char x :: nat) div 16) # hex_digit ((of_char x :: nat) mod 16) # hex_of_bytes xs"
    for x xs by (simp add: hex_of_bytes_def)
  from Cons.prems have hi: "hex_digit ((of_char c :: nat) div 16) = hex_digit ((of_char c' :: nat) div 16)"
    and lo: "hex_digit ((of_char c :: nat) mod 16) = hex_digit ((of_char c' :: nat) mod 16)"
    and rest: "hex_of_bytes bs = hex_of_bytes bs''"
    unfolding b u by simp_all
  from hex_digit_props(3) [OF of_char_div_mod(1) of_char_div_mod(1) hi]
  have d: "(of_char c :: nat) div 16 = (of_char c' :: nat) div 16" .
  from hex_digit_props(3) [OF of_char_div_mod(2) of_char_div_mod(2) lo]
  have m: "(of_char c :: nat) mod 16 = (of_char c' :: nat) mod 16" .
  from d m have "(of_char c :: nat) = of_char c'" by (metis div_mult_mod_eq)
  then have "c = c'" by simp
  with Cons.IH [OF rest] b show ?case by simp
qed

lemma calculate_hmac_audit:
  "calculate_hmac L cfg
     [(''user_id'', json_of_int uid), (''action'', json_of_str act),
      (''resource_type'', json_of_str rtype), (''resource_id'', json_of_str rid),
      (''ip_address'', json_of_str ip), (''status'', json_of_str st),
      (''details'', json_of_str det), (''user_agent'', json_of_str ua),
      (''timestamp'', JStr (isoformat L t))]
   = hex_of_bytes (hmac_digest L sha256 (AUDIT_SECRET cfg)
       (spec_canonical_encoding L uid act rtype rid ip st det ua t))"
  unfolding calculate_hmac_def Let_def json_dumps_audit spec_canonical_encoding_def
  by (simp add: json_value_def)

lemma json_of_str_Some: "JStr s = json_of_str (Some s)"
  by (simp add: json_of_str_def)

lemma log_audit_row:
  "audit_logs (log_audit L cfg d uid act rtype rid ip st det ua now)
     = audit_logs d @
       [\<lparr>user_id = uid, action = Some act, resource_type = Some rtype, resource_id = rid,
         ip_address = Some ip, user_agent = ua, status = Some st, details = det,
         hmac_signature = Some (hex_of_bytes (hmac_digest L sha256 (AUDIT_SECRET cfg)
            (spec_canonical_encoding L uid (Some act) (Some rtype) rid (Some ip) (Some st) det ua now))),
         timestamp = Some now\<rparr>]"
  unfolding log_audit_def Let_def
    json_of_str_Some [of act] json_of_str_Some [of rtype] json_of_str_Some [of ip]
    json_of_str_Some [of st] calculate_hmac_audit
  by simp

lemma verify_audit_log_stored:
  assumes "timestamp log = Some t" and "hmac_signature log = Some s" and "is_ascii s"
  shows "verify_audit_log L cfg log
     = Inr (s = hex_of_bytes (hmac_digest L sha256 (AUDIT_SECRET cfg)
              (spec_canonical_encoding L (user_id log) (action log) (resource_type log)
                 (resource_id log) (ip_address log) (status log) (details log)
                 (user_agent log) t)))"
  unfolding verify_audit_log_def Let_def assms(1) option.case calculate_hmac_audit
  using assms(2,3) by (auto simp add: compare_digest_def is_ascii_hex_of_bytes)

lemma verify_audit_log_raises:
  "timestamp log = None \<Longrightarrow>
     \<exists>m. verify_audit_log L cfg log = Inl (Exn ''AttributeError'' m)"
  "timestamp log = Some t \<Longrightarrow> hmac_signature log = None \<Longrightarrow>
     \<exists>m. verify_audit_log L cfg log = Inl (Exn ''TypeError'' m)"
  "timestamp log = Some t \<Longrightarrow> hmac_signature log = Some s \<Longrightarrow> \<not> is_ascii s \<Longrightarrow>
     \<exists>m. verify_audit_log L cfg log = Inl (Exn ''TypeError'' m)"
  by (simp_all add: verify_audit_log_def compare_digest_def Let_def)

lemma demo_log_fields:
  "timestamp demo_log = Some 200"
  "hmac_signature demo_log = Some ''6464646464646464646464646464646464646464646464646464646464646464''"
  "user_id demo_log = Some 1" "action demo_log = Some ''revoke_key''"
  "resource_type demo_log = Some ''key''" "resource_id demo_log = Some ''7''"
  "ip_address demo_log = Some ''127.0.0.1''" "status demo_log = Some ''success''"
  "details demo_log = None" "user_agent demo_log = None"
  by (simp_all add: demo_log_def)

lemma demo_hex:
  "hex_of_bytes (hmac_digest demo_lib sha256 key msg)
     = ''6464646464646464646464646464646464646464646464646464646464646464''"
proof -
  have "hmac_digest demo_lib sha256 key msg = replicate 32 (CHR ''d'')"
    by (simp add: demo_lib_def)
  moreover have "hex_of_bytes (replicate 32 (CHR ''d''))
     = ''6464646464646464646464646464646464646464646464646464646464646464''"
    by code_simp
  ultimately show ?thesis by simp
qed

lemma demo_ascii:
  "is_ascii ''6464646464646464646464646464646464646464646464646464646464646464''"
  "is_ascii ''00''"
  by (simp_all add: is_ascii_def)

lemma demo_canonical:
  "spec_canonical_encoding demo_lib (Some 1) (Some ''revoke_key'') (Some ''key'') (Some ''7'')
     (Some ''127.0.0.1'') (Some ''success'') None None 200
   = ''{<action>:<revoke_key>,<details>:null,<ip_address>:<127.0.0.1>,<resource_id>:<7>,<resource_type>:<key>,<status>:<success>,<timestamp>:<200>,<user_agent>:null,<user_id>:1}''"
proof -
  have r: "int_repr 200 = ''200''" "int_repr 1 = ''1''" by code_simp+
  show ?thesis
    by (simp add: spec_canonical_encoding_def demo_lib_def json_value_def json_of_str_def
        json_of_int_def r)
qed

section \<open>Sealing and opening\<close>

text \<open>
  C1. The round trip \<open>open (seal P) = P\<close> does not hold for every payload: under an
  HMAC256 key, whatever the key and the HMAC function, sealing the text \<open>a|HMAC|b\<close>
  succeeds and opening the sealed buffer does not return that text, because the buffer
  is split at the first marker, which lies inside the payload.
\<close>

theorem marker_in_plaintext_breaks_roundtrip:
  "encrypt_with_key L rnd ''a|HMAC|b'' key ''HMAC256''
     = Inr (''a|HMAC|b|HMAC|'' @ hmac_digest L sha256 key ''a|HMAC|b'')
   \<and> decrypt_with_key L (''a|HMAC|b|HMAC|'' @ hmac_digest L sha256 key ''a|HMAC|b'') key ''HMAC256''
       \<noteq> Inr ''a|HMAC|b''"
  by (simp add: encrypt_with_key_def decrypt_with_key_def decode_utf8_def)





text \<open>
  C8, as amended. Every failure of sealing, opening and unwrapping is either a
  \<^verbatim>\<open>ValueError\<close> that the code raises itself, with one of seven fixed messages, or the
  exception of a library call, passed on unchanged; \<^verbatim>\<open>ValueError\<close> is none of the error
  classes the specification names. An unsupported tag raises
  \<^verbatim>\<open>ValueError('Unsupported key type: ...')\<close>. For the MAC and signature families a
  buffer without the marker raises \<^verbatim>\<open>ValueError('Invalid ... format')\<close> and a failed MAC
  or signature check raises \<^verbatim>\<open>ValueError('... verification failed')\<close>: the same class,
  told apart by the message. Unwrapping makes no check of its own: its result is the
  result of the library's AES-GCM decryption of the first 12 bytes as nonce, the next 16
  bytes or fewer as tag, and the rest as ciphertext. So on a buffer shorter than 28 bytes
  it raises the library's \<^verbatim>\<open>ValueError\<close> for a tag shorter than 16 bytes, and on a
  wrapped key whose tag was replaced by another 16 bytes it raises the library's
  \<^verbatim>\<open>InvalidTag\<close>.
\<close>

theorem failures_are_value_errors_or_library:
  "(decrypt_with_key L c key kt = Inl e \<longrightarrow>
      (\<exists>m. m \<in> set (own_messages kt) \<and> e = ValueError m) \<or> lib_raises L e)
   \<and> (encrypt_with_key L rnd p key kt = Inl e \<longrightarrow>
      e = ValueError (''Unsupported key type: '' @ kt) \<or> lib_raises L e)
   \<and> (decrypt_key_with_master L cfg buf = Inl e \<longrightarrow> lib_raises L e)
   \<and> ''ValueError'' \<notin> set typed_errors
   \<and> (kt \<notin> set supported_key_types \<longrightarrow>
        decrypt_with_key L c key kt = Inl (ValueError (''Unsupported key type: '' @ kt))
        \<and> encrypt_with_key L rnd p key kt = Inl (ValueError (''Unsupported key type: '' @ kt)))
   \<and> ((kt = ''HMAC256'' \<or> kt = ''HMAC512'') \<and> split_once ''|HMAC|'' c = None \<longrightarrow>
        decrypt_with_key L c key kt = Inl (ValueError ''Invalid HMAC format''))
   \<and> ((kt = ''HMAC256'' \<or> kt = ''HMAC512'') \<and> split_once ''|HMAC|'' c = Some (pp, sp)
        \<and> sp \<noteq> hmac_digest L (if kt = ''HMAC256'' then sha256 else sha512) key pp \<longrightarrow>
        decrypt_with_key L c key kt = Inl (ValueError ''HMAC verification failed''))
   \<and> ((kt = ''ECC256'' \<or> kt = ''ECC384'') \<and> split_once ''|ECC|'' c = None \<longrightarrow>
        decrypt_with_key L c key kt = Inl (ValueError ''Invalid ECC signature format''))
   \<and> ((kt = ''ECC256'' \<or> kt = ''ECC384'') \<and> split_once ''|ECC|'' c = Some (pp, sp)
        \<and> load_pem_private_key L key = Inr sk \<and> \<not> ecdsa_verify L sk sp pp \<longrightarrow>
        decrypt_with_key L c key kt = Inl (ValueError ''ECC signature verification failed''))
   \<and> (kt = ''Ed25519'' \<and> split_once ''|Ed25519|'' c = None \<longrightarrow>
        decrypt_with_key L c key kt = Inl (ValueError ''Invalid Ed25519 signature format''))
   \<and> (kt = ''Ed25519'' \<and> split_once ''|Ed25519|'' c = Some (pp, sp)
        \<and> load_pem_private_key L key = Inr sk \<and> \<not> ed25519_verify L sk sp pp \<longrightarrow>
        decrypt_with_key L c key kt = Inl (ValueError ''Ed25519 signature verification failed''))
   \<and> decrypt_key_with_master L cfg buf
        = aes_gcm_decrypt L (take 32 (MASTER_KEY cfg)) (take 12 buf) (take 16 (drop 12 buf))
            (drop 28 buf)
   \<and> (gcm_rejects_short_tag L \<and> length buf < 28 \<longrightarrow>
        (\<exists>m. decrypt_key_with_master L cfg buf = Inl (ValueError m)))
   \<and> (gcm_correct L \<and> gcm_authentic L \<and> 32 \<le> length (MASTER_KEY cfg)
        \<and> encrypt_key_with_master L cfg rnd K = Inr wrapped
        \<and> length tag' = 16 \<and> tag' \<noteq> take 16 (drop 12 wrapped) \<longrightarrow>
        decrypt_key_with_master L cfg (take 12 wrapped @ tag' @ drop 28 wrapped)
          = Inl (Exn ''InvalidTag'' []))"
proof (intro conjI)
  show "decrypt_with_key L c key kt = Inl e \<longrightarrow>
      (\<exists>m. m \<in> set (own_messages kt) \<and> e = ValueError m) \<or> lib_raises L e"
    by (rule impI) (rule open_fails)
  show "encrypt_with_key L rnd p key kt = Inl e \<longrightarrow>
      e = ValueError (''Unsupported key type: '' @ kt) \<or> lib_raises L e"
    by (rule impI) (rule seal_fails)
  show "decrypt_key_with_master L cfg buf = Inl e \<longrightarrow> lib_raises L e"
    by (rule impI) (rule unwrap_fails)
  show "''ValueError'' \<notin> set typed_errors" by (simp add: typed_errors_def)
  show "kt \<notin> set supported_key_types \<longrightarrow>
        decrypt_with_key L c key kt = Inl (ValueError (''Unsupported key type: '' @ kt))
        \<and> encrypt_with_key L rnd p key kt = Inl (ValueError (''Unsupported key type: '' @ kt))"
    by (intro impI conjI unsupported_open unsupported_seal)
  show "(kt = ''HMAC256'' \<or> kt = ''HMAC512'') \<and> split_once ''|HMAC|'' c = None \<longrightarrow>
        decrypt_with_key L c key kt = Inl (ValueError ''Invalid HMAC format'')"
    using hmac_format_or_integrity(1) by blast
  show "(kt = ''HMAC256'' \<or> kt = ''HMAC512'') \<and> split_once ''|HMAC|'' c = Some (pp, sp)
        \<and> sp \<noteq> hmac_digest L (if kt = ''HMAC256'' then sha256 else sha512) key pp \<longrightarrow>
        decrypt_with_key L c key kt = Inl (ValueError ''HMAC verification failed'')"
    using hmac_format_or_integrity(2) by blast
  show "(kt = ''ECC256'' \<or> kt = ''ECC384'') \<and> split_once ''|ECC|'' c = None \<longrightarrow>
        decrypt_with_key L c key kt = Inl (ValueError ''Invalid ECC signature format'')"
    using ecdsa_format_or_integrity(1) by blast
  show "(kt = ''ECC256'' \<or> kt = ''ECC384'') \<and> split_once ''|ECC|'' c = Some (pp, sp)
        \<and> load_pem_private_key L key = Inr sk \<and> \<not> ecdsa_verify L sk sp pp \<longrightarrow>
        decrypt_with_key L c key kt = Inl (ValueError ''ECC signature verification failed'')"
    using ecdsa_format_or_integrity(2) by blast
  show "kt = ''Ed25519'' \<and> split_once ''|Ed25519|'' c = None \<longrightarrow>
        decrypt_with_key L c key kt = Inl (ValueError ''Invalid Ed25519 signature format'')"
    using ed25519_format_or_integrity(1) by blast
  show "kt = ''Ed25519'' \<and> split_once ''|Ed25519|'' c = Some (pp, sp)
        \<and> load_pem_private_key L key = Inr sk \<and> \<not> ed25519_verify L sk sp pp \<longrightarrow>
        decrypt_with_key L c key kt = Inl (ValueError ''Ed25519 signature verification failed'')"
    using ed25519_format_or_integrity(2) by blast
  show "decrypt_key_with_master L cfg buf
        = aes_gcm_decrypt L (take 32 (MASTER_KEY cfg)) (take 12 buf) (take 16 (drop 12 buf))
            (drop 28 buf)"
    by (rule unwrap_passes_slices)
  show "gcm_rejects_short_tag L \<and> length buf < 28 \<longrightarrow>
        (\<exists>m. decrypt_key_with_master L cfg buf = Inl (ValueError m))"
    using unwrap_short_buffer by blast
  show "gcm_correct L \<and> gcm_authentic L \<and> 32 \<le> length (MASTER_KEY cfg)
        \<and> encrypt_key_with_master L cfg rnd K = Inr wrapped
        \<and> length tag' = 16 \<and> tag' \<noteq> take 16 (drop 12 wrapped) \<longrightarrow>
        decrypt_key_with_master L cfg (take 12 wrapped @ tag' @ drop 28 wrapped)
          = Inl (Exn ''InvalidTag'' [])"
    using unwrap_tag_mismatch by blast
qed

theorem failures_are_value_errors_or_library_witness:
  "decrypt_with_key demo_lib ''hello|HMAC|tag'' ''key'' ''HMAC256''
       = Inl (ValueError ''HMAC verification failed'')
   \<and> ((\<exists>m. m \<in> set (own_messages ''HMAC256'') \<and> ValueError ''HMAC verification failed'' = ValueError m)
        \<or> lib_raises demo_lib (ValueError ''HMAC verification failed''))
   \<and> split_once ''|HMAC|'' ''hello'' = None
   \<and> decrypt_with_key demo_lib ''hello'' ''key'' ''HMAC256'' = Inl (ValueError ''Invalid HMAC format'')
   \<and> ''DES'' \<notin> set supported_key_types
   \<and> decrypt_with_key demo_lib ''hello'' ''key'' ''DES''
        = Inl (ValueError ''Unsupported key type: DES'')
   \<and> encrypt_with_key demo_lib (\<lambda>i. CHR ''r'') ''hello'' ''key'' ''DES''
        = Inl (ValueError ''Unsupported key type: DES'')
   \<and> gcm_rejects_short_tag demo_lib
   \<and> length ''01234567890123456789'' < 28
   \<and> (\<exists>m. decrypt_key_with_master demo_lib demo_cfg ''01234567890123456789'' = Inl (ValueError m))
   \<and> decrypt_key_with_master demo_lib demo_cfg ''01234567890123456789''
        = Inl (ValueError ''Authentication tag must be 16 bytes or longer.'')
   \<and> lib_raises demo_lib (ValueError ''Authentication tag must be 16 bytes or longer.'')
   \<and> gcm_correct demo_lib \<and> gcm_authentic demo_lib \<and> 32 \<le> length (MASTER_KEY demo_cfg)
   \<and> encrypt_key_with_master demo_lib demo_cfg (\<lambda>i. CHR ''n'') ''0123456789abcdef''
        = Inr (replicate 12 (CHR ''n'') @ replicate 16 (CHR ''t'') @ ''0123456789abcdef'')
   \<and> length (replicate 16 (CHR ''x'')) = 16
   \<and> replicate 16 (CHR ''x'')
        \<noteq> take 16 (drop 12 (replicate 12 (CHR ''n'') @ replicate 16 (CHR ''t'') @ ''0123456789abcdef''))
   \<and> decrypt_key_with_master demo_lib demo_cfg
          (replicate 12 (CHR ''n'') @ replicate 16 (CHR ''x'') @ ''0123456789abcdef'')
        = Inl (Exn ''InvalidTag'' [])"
proof -
  note T = failures_are_value_errors_or_library
  have b: "decrypt_with_key demo_lib ''hello|HMAC|tag'' ''key'' ''HMAC256''
       = Inl (ValueError ''HMAC verification failed'')"
    by (rule demo_bad_mac)
  note t1 = T [THEN conjunct1, rule_format, OF b]
  have n: "split_once ''|HMAC|'' ''hello'' = None" by simp
  have h: "''HMAC256'' = ''HMAC256'' \<or> ''HMAC256'' = ''HMAC512''" by simp
  note t2 = T [where kt = "''HMAC256''" and c = "''hello''" and L = demo_lib and key = "''key''",
      THEN conjunct2, THEN conjunct2, THEN conjunct2, THEN conjunct2, THEN conjunct2,
      THEN conjunct1, rule_format, OF conjI [OF h n]]
  have u: "''DES'' \<notin> set supported_key_types" by (simp add: supported_key_types_def)
  note t3 = T [where kt = "''DES''" and c = "''hello''" and L = demo_lib and key = "''key''"
        and p = "''hello''" and rnd = "\<lambda>i. CHR ''r''",
      THEN conjunct2, THEN conjunct2, THEN conjunct2, THEN conjunct2, THEN conjunct1,
      rule_format, OF u]
  have t3a: "decrypt_with_key demo_lib ''hello'' ''key'' ''DES''
        = Inl (ValueError ''Unsupported key type: DES'')"
    using t3 [THEN conjunct1] by simp
  have t3b: "encrypt_with_key demo_lib (\<lambda>i. CHR ''r'') ''hello'' ''key'' ''DES''
        = Inl (ValueError ''Unsupported key type: DES'')"
    using t3 [THEN conjunct2] by simp
  have s: "length ''01234567890123456789'' < 28" by simp
  note t4 = T [where L = demo_lib and cfg = demo_cfg and buf = "''01234567890123456789''",
      THEN conjunct2, THEN conjunct2, THEN conjunct2, THEN conjunct2, THEN conjunct2,
      THEN conjunct2, THEN conjunct2, THEN conjunct2, THEN conjunct2, THEN conjunct2,
      THEN conjunct2, THEN conjunct2,
      THEN conjunct1, rule_format, OF conjI [OF demo_gcm_rejects_short_tag s]]
  note t5 = T [THEN conjunct2, THEN conjunct2, THEN conjunct1, rule_format, OF demo_short_buffer]
  let ?w = "replicate 12 (CHR ''n'') @ replicate 16 (CHR ''t'') @ ''0123456789abcdef''"
  have x: "length (replicate 16 (CHR ''x'')) = 16" by simp
  have ne: "replicate 16 (CHR ''x'') \<noteq> take 16 (drop 12 ?w)" by simp
  have parts: "take 12 ?w = replicate 12 (CHR ''n'')" "drop 28 ?w = ''0123456789abcdef''"
    by simp_all
  note t6 = T [where L = demo_lib and cfg = demo_cfg and rnd = "\<lambda>i. CHR ''n''"
        and K = "''0123456789abcdef''" and wrapped = ?w and tag' = "replicate 16 (CHR ''x'')",
      THEN conjunct2, THEN conjunct2, THEN conjunct2, THEN conjunct2, THEN conjunct2,
      THEN conjunct2, THEN conjunct2, THEN conjunct2, THEN conjunct2, THEN conjunct2,
      THEN conjunct2, THEN conjunct2,
      THEN conjunct2, rule_format,
      OF conjI [OF demo_gcm_correct conjI [OF demo_gcm_authentic conjI [OF demo_master
           conjI [OF demo_wrap conjI [OF x ne]]]]], unfolded parts]
  show ?thesis
    by (intro conjI b t1 n t2 u t3a t3b demo_gcm_rejects_short_tag s t4 demo_short_buffer t5
        demo_gcm_correct demo_gcm_authentic demo_master demo_wrap x ne t6)
qed

text \<open>
  C8 as stated fails: a buffer without the marker, a buffer with a wrong MAC and an
  unknown tag all raise \<^verbatim>\<open>ValueError\<close>, which is not one of the four typed errors.
\<close>

theorem value_error_is_not_typed:
  "decrypt_with_key demo_lib ''hello'' ''key'' ''HMAC256'' = Inl (ValueError ''Invalid HMAC format'')
   \<and> decrypt_with_key demo_lib ''hello|HMAC|tag'' ''key'' ''HMAC256''
       = Inl (ValueError ''HMAC verification failed'')
   \<and> decrypt_with_key demo_lib ''hello'' ''key'' ''DES''
       = Inl (ValueError ''Unsupported key type: DES'')
   \<and> exn_class (ValueError ''Invalid HMAC format'') \<notin> set typed_errors
   \<and> exn_class (ValueError ''HMAC verification failed'') \<notin> set typed_errors
   \<and> exn_class (ValueError ''Unsupported key type: DES'') \<notin> set typed_errors"
proof -
  have a: "decrypt_with_key demo_lib ''hello'' ''key'' ''HMAC256'' = Inl (ValueError ''Invalid HMAC format'')"
    unfolding open_hmac by simp
  have b: "decrypt_with_key demo_lib ''hello|HMAC|tag'' ''key'' ''HMAC256''
       = Inl (ValueError ''HMAC verification failed'')"
    by (rule demo_bad_mac)
  have "''DES'' \<notin> set supported_key_types" by (simp add: supported_key_types_def)
  from unsupported_open [OF this]
  have c: "decrypt_with_key demo_lib ''hello'' ''key'' ''DES''
       = Inl (ValueError ''Unsupported key type: DES'')" by simp
  have d: "exn_class (ValueError m) \<notin> set typed_errors" for m
    by (simp add: typed_errors_def)
  show ?thesis by (intro conjI a b c d)
qed

section \<open>The master-key envelope\<close>

text \<open>
  C2. Wrapping key material \<open>K\<close> of any length (so of 16, 32 and 64 bytes and of any PEM
  encoding) under a master key of at least 32 bytes gives the 12 random bytes of the
  nonce, then the 16 bytes of the GCM tag, then the ciphertext; unwrapping that buffer
  gives \<open>K\<close> back.
\<close>

theorem wrap_roundtrip:
  assumes lib: "gcm_correct L" and master: "32 \<le> length (MASTER_KEY cfg)"
  shows "\<exists>tag ct. aes_gcm_encrypt L (take 32 (MASTER_KEY cfg)) (token_bytes rnd 12) K = Inr (ct, tag)
           \<and> length (token_bytes rnd 12) = 12 \<and> length tag = 16
           \<and> encrypt_key_with_master L cfg rnd K = Inr (token_bytes rnd 12 @ tag @ ct)
           \<and> decrypt_key_with_master L cfg (token_bytes rnd 12 @ tag @ ct) = Inr K"
proof -
  let ?key = "take 32 (MASTER_KEY cfg)" and ?nonce = "token_bytes rnd 12"
  from master have "length ?key \<in> {16, 24, 32}" by simp
  moreover have n: "length ?nonce = 12" by (rule length_token_bytes)
  ultimately obtain ct tag where
    enc: "aes_gcm_encrypt L ?key ?nonce K = Inr (ct, tag)" and tag: "length tag = 16"
    and dec: "aes_gcm_decrypt L ?key ?nonce tag ct = Inr K"
    using lib unfolding gcm_correct_def by blast
  from enc have w: "encrypt_key_with_master L cfg rnd K = Inr (?nonce @ tag @ ct)"
    by (simp add: encrypt_key_with_master_def)
  from n tag dec have "decrypt_key_with_master L cfg (?nonce @ tag @ ct) = Inr K"
    by (simp add: decrypt_key_with_master_def)
  with enc n tag w show ?thesis by blast
qed

theorem wrap_roundtrip_witness:
  "gcm_correct demo_lib \<and> 32 \<le> length (MASTER_KEY demo_cfg) \<and>
   (\<exists>tag ct. aes_gcm_encrypt demo_lib (take 32 (MASTER_KEY demo_cfg))
                (token_bytes (\<lambda>i. CHR ''r'') 12) ''0123456789abcdef'' = Inr (ct, tag)
           \<and> length (token_bytes (\<lambda>i. CHR ''r'') 12) = 12 \<and> length tag = 16
           \<and> encrypt_key_with_master demo_lib demo_cfg (\<lambda>i. CHR ''r'') ''0123456789abcdef''
               = Inr (token_bytes (\<lambda>i. CHR ''r'') 12 @ tag @ ct)
           \<and> decrypt_key_with_master demo_lib demo_cfg (token_bytes (\<lambda>i. CHR ''r'') 12 @ tag @ ct)
               = Inr ''0123456789abcdef'')"
proof -
  have m: "32 \<le> length (MASTER_KEY demo_cfg)" by (simp add: demo_cfg_def)
  show ?thesis
    using wrap_roundtrip [OF demo_gcm_correct m, of "\<lambda>i. CHR ''r''" "''0123456789abcdef''"]
      demo_gcm_correct m
    by blast
qed

section \<open>The life cycle of a key record\<close>

text \<open>
  C3, as amended. Revoking a record that is already revoked (and so inactive) is not an
  error, and it leaves the record's state and every other field as they were, except
  \<open>revoked_at\<close>, which is overwritten with the time of the new call. Nothing else
  changes a revoked record while it exists: rotation refuses it and leaves the database as
  it is, and encrypting and decrypting do not write to the table of keys.
\<close>

theorem revoke_again_restamps:
  assumes admin: "require_role L (role rq) [''admin''] = None"
    and found: "find (\<lambda>k. row_id k = key_id) (crypto_keys d) = Some k"
    and revoked: "is_revoked k" and inactive: "\<not> is_active k"
  shows "(\<exists>d'. revoke_key L cfg rq key_id d
                 = (Inr (response_of_key (k\<lparr>revoked_at := Some (utcnow rq 0)\<rparr>)), d')
              \<and> crypto_keys d' = update_row (k\<lparr>revoked_at := Some (utcnow rq 0)\<rparr>) (crypto_keys d)
              \<and> find (\<lambda>k. row_id k = key_id) (crypto_keys d')
                  = Some (k\<lparr>revoked_at := Some (utcnow rq 0)\<rparr>))
       \<and> rotate_key L cfg rq key_id d
           = (Inl (HTTPException 400 ''Cannot rotate a revoked key''), d)
       \<and> crypto_keys (snd (encrypt_data L cfg rq key_id plaintext d)) = crypto_keys d
       \<and> crypto_keys (snd (decrypt_data L cfg rq key_id ciphertext d)) = crypto_keys d"
proof -
  let ?k' = "k\<lparr>revoked_at := Some (utcnow rq 0)\<rparr>"
  let ?d' = "log_audit L cfg (d\<lparr>crypto_keys := update_row ?k' (crypto_keys d)\<rparr>)
        (Some (sub rq)) ''revoke_key'' ''key'' (Some (int_repr key_id)) ''127.0.0.1''
        ''success'' None None (utcnow rq 1)"
  have run: "revoke_key L cfg rq key_id d = (Inr (response_of_key ?k'), ?d')"
    unfolding revoke_key_found [OF admin found] revoke_revoked_row [OF revoked inactive] ..
  have keys: "crypto_keys ?d' = update_row ?k' (crypto_keys d)"
    unfolding crypto_keys_log_audit by simp
  from found have "row_id k = key_id" by (rule find_row_id)
  then have "row_id ?k' = key_id" by simp
  with found have f: "find (\<lambda>k. row_id k = key_id) (update_row ?k' (crypto_keys d)) = Some ?k'"
    by (rule find_update_row)
  from f have f': "find (\<lambda>k. row_id k = key_id) (crypto_keys ?d') = Some ?k'"
    by (simp only: keys)
  from run keys f'
  have again: "\<exists>d'. revoke_key L cfg rq key_id d = (Inr (response_of_key ?k'), d')
              \<and> crypto_keys d' = update_row ?k' (crypto_keys d)
              \<and> find (\<lambda>k. row_id k = key_id) (crypto_keys d') = Some ?k'"
    by (intro exI conjI)
  show ?thesis
    by (intro conjI again rotate_key_revoked [OF admin found revoked]
        encrypt_data_keeps_keys decrypt_data_keeps_keys)
qed

theorem revoke_again_restamps_witness:
  "require_role demo_lib (role demo_request) [''admin''] = None
   \<and> find (\<lambda>k. row_id k = 7) (crypto_keys (demo_db demo_revoked_key)) = Some demo_revoked_key
   \<and> is_revoked demo_revoked_key \<and> \<not> is_active demo_revoked_key
   \<and> (\<exists>d'. revoke_key demo_lib demo_cfg demo_request 7 (demo_db demo_revoked_key)
                 = (Inr (response_of_key
                           (demo_revoked_key\<lparr>revoked_at := Some (utcnow demo_request 0)\<rparr>)), d')
           \<and> crypto_keys d'
                = update_row (demo_revoked_key\<lparr>revoked_at := Some (utcnow demo_request 0)\<rparr>)
                    (crypto_keys (demo_db demo_revoked_key))
           \<and> find (\<lambda>k. row_id k = 7) (crypto_keys d')
                = Some (demo_revoked_key\<lparr>revoked_at := Some (utcnow demo_request 0)\<rparr>))
   \<and> rotate_key demo_lib demo_cfg demo_request 7 (demo_db demo_revoked_key)
        = (Inl (HTTPException 400 ''Cannot rotate a revoked key''), demo_db demo_revoked_key)"
proof -
  note f = demo_find [OF demo_revoked_key_fields(1)]
  note r = demo_revoked_key_fields(2) and i = demo_revoked_key_fields(3)
  note t = revoke_again_restamps [OF demo_admin f r i, of demo_cfg]
  show ?thesis
    by (intro conjI demo_admin f r i t [THEN conjunct1] t [THEN conjunct2, THEN conjunct1])
qed

text \<open>
  C3 as stated fails: a second revocation at time 200 of a record revoked at time 100
  changes the stored record.
\<close>

theorem revoke_again_changes_record:
  "is_revoked demo_revoked_key
   \<and> revoked_at demo_revoked_key = Some 100
   \<and> crypto_keys (demo_db demo_revoked_key) = [demo_revoked_key]
   \<and> crypto_keys (snd (revoke_key demo_lib demo_cfg demo_request 7 (demo_db demo_revoked_key)))
       = [demo_revoked_key\<lparr>revoked_at := Some 200\<rparr>]
   \<and> [demo_revoked_key\<lparr>revoked_at := Some 200\<rparr>] \<noteq> [demo_revoked_key]"
proof -
  have u: "utcnow demo_request 0 = 200" by (simp add: demo_request_def)
  note same = revoke_revoked_row [OF demo_revoked_key_fields(2,3)]
  have up: "update_row (demo_revoked_key\<lparr>revoked_at := Some 200\<rparr>) (crypto_keys (demo_db demo_revoked_key))
      = [demo_revoked_key\<lparr>revoked_at := Some 200\<rparr>]"
    by (rule demo_update) simp
  have ne: "[demo_revoked_key\<lparr>revoked_at := Some 200\<rparr>] \<noteq> [demo_revoked_key]"
  proof
    assume "[demo_revoked_key\<lparr>revoked_at := Some 200\<rparr>] = [demo_revoked_key]"
    then have "revoked_at (demo_revoked_key\<lparr>revoked_at := Some 200\<rparr>) = revoked_at demo_revoked_key"
      by simp
    with demo_revoked_key_fields(4) show False by simp
  qed
  have after: "crypto_keys (snd (revoke_key demo_lib demo_cfg demo_request 7 (demo_db demo_revoked_key)))
       = [demo_revoked_key\<lparr>revoked_at := Some 200\<rparr>]"
    unfolding revoke_key_found [OF demo_admin demo_find [OF demo_revoked_key_fields(1)]] u same
      snd_conv crypto_keys_log_audit
    by (simp add: up)
  have before: "crypto_keys (demo_db demo_revoked_key) = [demo_revoked_key]"
    by (simp add: demo_db_def)
  from demo_revoked_key_fields(2,4) before after ne show ?thesis by (intro conjI)
qed

text \<open>
  C4. On a record that is not both active and not revoked, the encrypt operation fails
  with status 400 before anything is decrypted or encrypted, so it succeeds only on an
  active record that is not revoked. The decrypt operation refuses a record with status
  400 exactly when the record is neither active nor revoked.
\<close>

theorem access_for_use_policy:
  assumes found: "find (\<lambda>k. row_id k = key_id) (crypto_keys d) = Some k"
  shows "(\<not> (is_active k \<and> \<not> is_revoked k) \<longrightarrow>
            encrypt_data L cfg rq key_id plaintext d
              = (Inl (HTTPException 400 ''Key is not active or has been revoked''),
                 log_audit L cfg d (Some (sub rq)) ''encrypt'' ''data'' (Some (int_repr key_id))
                   ''127.0.0.1'' ''failure'' None None (utcnow rq 0)))
       \<and> (\<forall>response. fst (encrypt_data L cfg rq key_id plaintext d) = Inr response \<longrightarrow>
            is_active k \<and> \<not> is_revoked k)
       \<and> (fst (decrypt_data L cfg rq key_id ciphertext d)
             = Inl (HTTPException 400 ''Key is not available'')
           \<longleftrightarrow> \<not> (is_active k \<or> is_revoked k))"
proof (intro conjI)
  show "\<not> (is_active k \<and> \<not> is_revoked k) \<longrightarrow>
            encrypt_data L cfg rq key_id plaintext d
              = (Inl (HTTPException 400 ''Key is not active or has been revoked''),
                 log_audit L cfg d (Some (sub rq)) ''encrypt'' ''data'' (Some (int_repr key_id))
                   ''127.0.0.1'' ''failure'' None None (utcnow rq 0))"
    unfolding encrypt_data_found [OF found] by simp
  show "\<forall>response. fst (encrypt_data L cfg rq key_id plaintext d) = Inr response \<longrightarrow>
            is_active k \<and> \<not> is_revoked k"
    unfolding encrypt_data_found [OF found] by (simp split: if_splits)
  show "fst (decrypt_data L cfg rq key_id ciphertext d)
             = Inl (HTTPException 400 ''Key is not available'')
           \<longleftrightarrow> \<not> (is_active k \<or> is_revoked k)"
    unfolding decrypt_data_found [OF found]
    by (simp add: fst_case_sum split: sum.split)
qed

theorem access_for_use_policy_witness:
  "find (\<lambda>k. row_id k = 7) (crypto_keys (demo_db demo_revoked_key)) = Some demo_revoked_key
   \<and> \<not> is_active demo_revoked_key \<and> is_revoked demo_revoked_key
   \<and> encrypt_data demo_lib demo_cfg demo_request 7 ''hello'' (demo_db demo_revoked_key)
        = (Inl (HTTPException 400 ''Key is not active or has been revoked''),
           log_audit demo_lib demo_cfg (demo_db demo_revoked_key) (Some (sub demo_request))
             ''encrypt'' ''data'' (Some (int_repr 7)) ''127.0.0.1'' ''failure'' None None
             (utcnow demo_request 0))
   \<and> fst (decrypt_data demo_lib demo_cfg demo_request 7 ''hello'' (demo_db demo_revoked_key))
        \<noteq> Inl (HTTPException 400 ''Key is not available'')"
proof -
  note f = demo_find [OF demo_revoked_key_fields(1)]
  note t = access_for_use_policy [OF f, of demo_lib demo_cfg demo_request "''hello''" "''hello''"]
  from demo_revoked_key_fields(3) have n: "\<not> (is_active demo_revoked_key \<and> \<not> is_revoked demo_revoked_key)"
    by simp
  note e = t [THEN conjunct1, rule_format, OF n]
  from t [THEN conjunct2, THEN conjunct2] demo_revoked_key_fields(2)
  have dn: "fst (decrypt_data demo_lib demo_cfg demo_request 7 ''hello'' (demo_db demo_revoked_key))
        \<noteq> Inl (HTTPException 400 ''Key is not available'')"
    by simp
  show ?thesis
    by (intro conjI f demo_revoked_key_fields(3) demo_revoked_key_fields(2) e dn)
qed

text \<open>
  C5. For an administrator, rotation fails with status 404 when the key id is absent and
  with status 400 when the record is revoked. Otherwise, for a record whose algorithm is
  one of the supported tags, it generates the key material that the specification
  describes for the record's algorithm from the random bytes of the request (16, 32 or 64
  random bytes, or a new private key of the algorithm's size or curve), encrypts it under
  the master key with a nonce of 12 new random bytes, stores nonce, tag and ciphertext in
  place of the old wrapped key, adds exactly one to the version, stamps \<open>rotated_at\<close>,
  and leaves the id and the algorithm unchanged; unwrapping the stored value gives the
  new material.
\<close>

theorem rotate_key_spec:
  assumes admin: "require_role L (role rq) [''admin''] = None"
  shows "(find (\<lambda>k. row_id k = key_id) (crypto_keys d) = None \<longrightarrow>
            rotate_key L cfg rq key_id d = (Inl (HTTPException 404 ''Key not found''), d))
       \<and> (find (\<lambda>k. row_id k = key_id) (crypto_keys d) = Some k \<and> is_revoked k \<longrightarrow>
            rotate_key L cfg rq key_id d
              = (Inl (HTTPException 400 ''Cannot rotate a revoked key''), d))
       \<and> (find (\<lambda>k. row_id k = key_id) (crypto_keys d) = Some k \<and> \<not> is_revoked k
            \<and> key_type k \<in> set supported_key_types
            \<and> gcm_correct L \<and> 32 \<le> length (MASTER_KEY cfg) \<longrightarrow>
            (\<exists>raw nonce tag ct wrapped k' d'.
                raw = spec_key_material L (urandom rq 0) (key_type k)
              \<and> generate_key L (urandom rq 0) (key_type k) = Inr raw
              \<and> nonce = token_bytes (urandom rq 1) 12
              \<and> aes_gcm_encrypt L (take 32 (MASTER_KEY cfg)) nonce raw = Inr (ct, tag)
              \<and> length tag = 16
              \<and> wrapped = nonce @ tag @ ct
              \<and> encrypt_key_with_master L cfg (urandom rq 1) raw = Inr wrapped
              \<and> decrypt_key_with_master L cfg wrapped = Inr raw
              \<and> k' = k\<lparr>encrypted_key := wrapped, key_version := key_version k + 1,
                         rotated_at := Some (utcnow rq 0)\<rparr>
              \<and> rotate_key L cfg rq key_id d = (Inr (response_of_key k'), d')
              \<and> crypto_keys d' = update_row k' (crypto_keys d)
              \<and> find (\<lambda>k. row_id k = key_id) (crypto_keys d') = Some k'
              \<and> row_id k' = row_id k \<and> key_type k' = key_type k
              \<and> key_version k' = key_version k + 1))
       \<and> length (spec_key_material L rnd ''AES128GCM'') = 16
       \<and> length (spec_key_material L rnd ''AES256GCM'') = 32
       \<and> length (spec_key_material L rnd ''AES256CBC'') = 32
       \<and> length (spec_key_material L rnd ''ChaCha20Poly1305'') = 32
       \<and> length (spec_key_material L rnd ''HMAC256'') = 32
       \<and> length (spec_key_material L rnd ''HMAC512'') = 64
       \<and> spec_key_material L rnd ''RSA2048'' = rsa_private_pem L rnd 2048
       \<and> spec_key_material L rnd ''RSA'' = rsa_private_pem L rnd 2048
       \<and> spec_key_material L rnd ''RSA4096'' = rsa_private_pem L rnd 4096
       \<and> spec_key_material L rnd ''ECC256'' = ec_private_pem L rnd ''secp256r1''
       \<and> spec_key_material L rnd ''ECC384'' = ec_private_pem L rnd ''secp384r1''
       \<and> spec_key_material L rnd ''Ed25519'' = ed25519_private_pem L rnd"
proof (intro conjI impI)
  assume "find (\<lambda>k. row_id k = key_id) (crypto_keys d) = None"
  with admin show "rotate_key L cfg rq key_id d = (Inl (HTTPException 404 ''Key not found''), d)"
    by (rule rotate_key_absent)
next
  assume "find (\<lambda>k. row_id k = key_id) (crypto_keys d) = Some k \<and> is_revoked k"
  then have f: "find (\<lambda>k. row_id k = key_id) (crypto_keys d) = Some k" and r: "is_revoked k"
    by simp_all
  show "rotate_key L cfg rq key_id d
              = (Inl (HTTPException 400 ''Cannot rotate a revoked key''), d)"
    by (rule rotate_key_revoked [OF admin f r])
next
  assume a: "find (\<lambda>k. row_id k = key_id) (crypto_keys d) = Some k \<and> \<not> is_revoked k
            \<and> key_type k \<in> set supported_key_types
            \<and> gcm_correct L \<and> 32 \<le> length (MASTER_KEY cfg)"
  then have found: "find (\<lambda>k. row_id k = key_id) (crypto_keys d) = Some k"
    and active: "\<not> is_revoked k" and sup: "key_type k \<in> set supported_key_types"
    and lib: "gcm_correct L" and master: "32 \<le> length (MASTER_KEY cfg)"
    by simp_all
  define raw where "raw = spec_key_material L (urandom rq 0) (key_type k)"
  define nonce where "nonce = token_bytes (urandom rq 1) 12"
  have gen: "generate_key L (urandom rq 0) (key_type k) = Inr raw"
    unfolding raw_def by (rule generate_key_material [OF sup])
  from gcm_wrap [OF lib master, of "urandom rq 1" raw] obtain ct tag where
    enc: "aes_gcm_encrypt L (take 32 (MASTER_KEY cfg)) nonce raw = Inr (ct, tag)"
    and tag: "length tag = 16"
    and dec: "aes_gcm_decrypt L (take 32 (MASTER_KEY cfg)) nonce tag ct = Inr raw"
    unfolding nonce_def by blast
  define wrapped where "wrapped = nonce @ tag @ ct"
  from enc have wrap: "encrypt_key_with_master L cfg (urandom rq 1) raw = Inr wrapped"
    unfolding wrapped_def nonce_def by (simp add: encrypt_key_with_master_def)
  from tag dec have unwrap: "decrypt_key_with_master L cfg wrapped = Inr raw"
    unfolding wrapped_def nonce_def
    by (simp add: decrypt_key_with_master_def length_token_bytes)
  define k' where "k' = k\<lparr>encrypted_key := wrapped, key_version := key_version k + 1,
                         rotated_at := Some (utcnow rq 0)\<rparr>"
  define d' where "d' = log_audit L cfg (d\<lparr>crypto_keys := update_row k' (crypto_keys d)\<rparr>)
        (Some (sub rq)) ''rotate_key'' ''key'' (Some (int_repr key_id)) ''127.0.0.1''
        ''success'' None None (utcnow rq 1)"
  have run: "rotate_key L cfg rq key_id d = (Inr (response_of_key k'), d')"
    unfolding k'_def d'_def by (rule rotate_key_found [OF admin found active gen wrap])
  have keys: "crypto_keys d' = update_row k' (crypto_keys d)"
    unfolding d'_def crypto_keys_log_audit by simp
  have fields: "row_id k' = row_id k" "key_type k' = key_type k" "key_version k' = key_version k + 1"
    unfolding k'_def by simp_all
  from found have "row_id k = key_id" by (rule find_row_id)
  with fields have "row_id k' = key_id" by simp
  with found have "find (\<lambda>k. row_id k = key_id) (update_row k' (crypto_keys d)) = Some k'"
    by (rule find_update_row)
  then have f: "find (\<lambda>k. row_id k = key_id) (crypto_keys d') = Some k'"
    by (simp only: keys)
  from raw_def gen nonce_def enc tag wrapped_def wrap unwrap k'_def run keys f fields
  show "\<exists>raw nonce tag ct wrapped k' d'.
                raw = spec_key_material L (urandom rq 0) (key_type k)
              \<and> generate_key L (urandom rq 0) (key_type k) = Inr raw
              \<and> nonce = token_bytes (urandom rq 1) 12
              \<and> aes_gcm_encrypt L (take 32 (MASTER_KEY cfg)) nonce raw = Inr (ct, tag)
              \<and> length tag = 16
              \<and> wrapped = nonce @ tag @ ct
              \<and> encrypt_key_with_master L cfg (urandom rq 1) raw = Inr wrapped
              \<and> decrypt_key_with_master L cfg wrapped = Inr raw
              \<and> k' = k\<lparr>encrypted_key := wrapped, key_version := key_version k + 1,
                         rotated_at := Some (utcnow rq 0)\<rparr>
              \<and> rotate_key L cfg rq key_id d = (Inr (response_of_key k'), d')
              \<and> crypto_keys d' = update_row k' (crypto_keys d)
              \<and> find (\<lambda>k. row_id k = key_id) (crypto_keys d') = Some k'
              \<and> row_id k' = row_id k \<and> key_type k' = key_type k
              \<and> key_version k' = key_version k + 1"
    by (intro exI conjI)
qed (rule spec_key_material_sizes spec_key_material_keys)+

theorem rotate_key_spec_witness:
  "require_role demo_lib (role demo_request) [''admin''] = None
   \<and> find (\<lambda>k. row_id k = 7) (crypto_keys (demo_db demo_key)) = Some demo_key
   \<and> \<not> is_revoked demo_key \<and> key_type demo_key \<in> set supported_key_types
   \<and> gcm_correct demo_lib \<and> 32 \<le> length (MASTER_KEY demo_cfg)
   \<and> key_type demo_key = ''AES256GCM''
   \<and> generate_key demo_lib (urandom demo_request 0) (key_type demo_key)
        = Inr (replicate 32 (CHR ''r''))
   \<and> encrypt_key_with_master demo_lib demo_cfg (urandom demo_request 1) (replicate 32 (CHR ''r''))
        = Inr (replicate 12 (CHR ''n'') @ replicate 16 (CHR ''t'') @ replicate 32 (CHR ''r''))
   \<and> decrypt_key_with_master demo_lib demo_cfg
          (replicate 12 (CHR ''n'') @ replicate 16 (CHR ''t'') @ replicate 32 (CHR ''r''))
        = Inr (replicate 32 (CHR ''r''))
   \<and> (\<exists>d'. rotate_key demo_lib demo_cfg demo_request 7 (demo_db demo_key)
               = (Inr (response_of_key
                    (demo_key\<lparr>encrypted_key := replicate 12 (CHR ''n'') @ replicate 16 (CHR ''t'')
                                                  @ replicate 32 (CHR ''r''),
                               key_version := 2, rotated_at := Some 200\<rparr>)), d')
           \<and> crypto_keys d'
               = [demo_key\<lparr>encrypted_key := replicate 12 (CHR ''n'') @ replicate 16 (CHR ''t'')
                                                @ replicate 32 (CHR ''r''),
                             key_version := 2, rotated_at := Some 200\<rparr>])
   \<and> replicate 12 (CHR ''n'') @ replicate 16 (CHR ''t'') @ replicate 32 (CHR ''r'')
        \<noteq> encrypted_key demo_key
   \<and> find (\<lambda>k. row_id k = 8) (crypto_keys (demo_db demo_key)) = None
   \<and> rotate_key demo_lib demo_cfg demo_request 8 (demo_db demo_key)
        = (Inl (HTTPException 404 ''Key not found''), demo_db demo_key)
   \<and> find (\<lambda>k. row_id k = 7) (crypto_keys (demo_db demo_revoked_key)) = Some demo_revoked_key
   \<and> is_revoked demo_revoked_key
   \<and> rotate_key demo_lib demo_cfg demo_request 7 (demo_db demo_revoked_key)
        = (Inl (HTTPException 400 ''Cannot rotate a revoked key''), demo_db demo_revoked_key)"
proof -
  note f = demo_find [OF demo_key_fields(1)]
  note fr = demo_find [OF demo_revoked_key_fields(1)]
  have absent: "find (\<lambda>k. row_id k = 8) (crypto_keys (demo_db demo_key)) = None"
    by (simp add: demo_db_def demo_key_fields(1))
  have kt: "key_type demo_key = ''AES256GCM''" by (simp add: demo_key_def)
  have u: "utcnow demo_request 0 = 200" by (simp add: demo_request_def)
  let ?raw = "replicate 32 (CHR ''r'')"
  let ?wrapped = "replicate 12 (CHR ''n'') @ replicate 16 (CHR ''t'') @ replicate 32 (CHR ''r'')"
  let ?K = "demo_key\<lparr>encrypted_key := ?wrapped, key_version := 2, rotated_at := Some 200\<rparr>"
  have m: "spec_key_material demo_lib (urandom demo_request 0) (key_type demo_key) = ?raw"
    unfolding kt demo_urandom by (simp add: spec_key_material_def token_bytes_const)
  from rotate_key_spec [OF demo_admin, where key_id = 7 and d = "demo_db demo_key" and k = demo_key and cfg = demo_cfg,
      THEN conjunct2, THEN conjunct2, THEN conjunct1, rule_format,
      OF conjI [OF f conjI [OF demo_key_fields(2) conjI [OF demo_key_fields(4)
           conjI [OF demo_gcm_correct demo_master]]]]]
  obtain raw nonce tag ct wrapped k' d' where
    raw: "raw = spec_key_material demo_lib (urandom demo_request 0) (key_type demo_key)"
    and gen: "generate_key demo_lib (urandom demo_request 0) (key_type demo_key) = Inr raw"
    and nonce: "nonce = token_bytes (urandom demo_request 1) 12"
    and enc: "aes_gcm_encrypt demo_lib (take 32 (MASTER_KEY demo_cfg)) nonce raw = Inr (ct, tag)"
    and wrapped: "wrapped = nonce @ tag @ ct"
    and wrap: "encrypt_key_with_master demo_lib demo_cfg (urandom demo_request 1) raw = Inr wrapped"
    and unwrap: "decrypt_key_with_master demo_lib demo_cfg wrapped = Inr raw"
    and k': "k' = demo_key\<lparr>encrypted_key := wrapped, key_version := key_version demo_key + 1,
                         rotated_at := Some (utcnow demo_request 0)\<rparr>"
    and run: "rotate_key demo_lib demo_cfg demo_request 7 (demo_db demo_key) = (Inr (response_of_key k'), d')"
    and keys: "crypto_keys d' = update_row k' (crypto_keys (demo_db demo_key))"
    by blast
  from raw m have raw': "raw = ?raw" by simp
  from nonce have nonce': "nonce = replicate 12 (CHR ''n'')"
    unfolding demo_urandom token_bytes_const .
  have "aes_gcm_encrypt demo_lib (take 32 (MASTER_KEY demo_cfg)) (replicate 12 (CHR ''n'')) raw
      = Inr (raw, replicate 16 (CHR ''t''))"
    by (rule demo_gcm_encrypt) simp_all
  with enc have "ct = raw" "tag = replicate 16 (CHR ''t'')"
    unfolding nonce' by simp_all
  with wrapped raw' nonce' have w: "wrapped = ?wrapped" by simp
  from k' have K: "k' = ?K" unfolding w u demo_key_fields(5) by simp
  have up: "update_row ?K (crypto_keys (demo_db demo_key)) = [?K]"
    by (rule demo_update) simp
  from gen have g: "generate_key demo_lib (urandom demo_request 0) (key_type demo_key) = Inr ?raw"
    unfolding raw' .
  from wrap have e: "encrypt_key_with_master demo_lib demo_cfg (urandom demo_request 1) ?raw = Inr ?wrapped"
    unfolding raw' w .
  from unwrap have dd: "decrypt_key_with_master demo_lib demo_cfg ?wrapped = Inr ?raw"
    unfolding raw' w .
  from run keys have r: "\<exists>d'. rotate_key demo_lib demo_cfg demo_request 7 (demo_db demo_key)
               = (Inr (response_of_key ?K), d') \<and> crypto_keys d' = [?K]"
    unfolding K up by blast
  note nf = rotate_key_spec [OF demo_admin, where key_id = 8 and d = "demo_db demo_key" and k = demo_key and cfg = demo_cfg,
      THEN conjunct1, rule_format, OF absent]
  note rv = rotate_key_spec [OF demo_admin, where key_id = 7 and d = "demo_db demo_revoked_key" and k = demo_revoked_key and cfg = demo_cfg,
      THEN conjunct2, THEN conjunct1, rule_format, OF conjI [OF fr demo_revoked_key_fields(2)]]
  show ?thesis
    by (intro conjI demo_admin f demo_key_fields(2) demo_key_fields(4) demo_gcm_correct
        demo_master kt g e dd r demo_old_wrap absent nf fr demo_revoked_key_fields(2) rv)
qed

text \<open>
  C6, as amended. The rotation-due predicate returns true if and only if the record is
  active, not revoked, the maximum age is a number of days of magnitude at most
  999999999, the threshold \<open>now\<close> minus the maximum age is in the range of
  \<^verbatim>\<open>datetime\<close>, and the age of the record, counted from \<open>rotated_at\<close> if set and
  from \<open>created_at\<close> otherwise, is strictly greater than the maximum age. For an active
  record that is not revoked it raises \<^verbatim>\<open>OverflowError\<close> when the number of days or the
  threshold is out of range, and it raises nothing else; in every other case it returns
  false, so also at an age equal to the maximum age and for every revoked or inactive
  record.
\<close>

theorem should_rotate_key_strict:
  "(should_rotate_key L now key rotation_days = Inr True \<longleftrightarrow>
      is_active key \<and> \<not> is_revoked key
      \<and> \<bar>rotation_days\<bar> \<le> 999999999
      \<and> datetime_min \<le> now - timedelta_days rotation_days
      \<and> now - timedelta_days rotation_days \<le> datetime_max
      \<and> now - (case rotated_at key of Some t \<Rightarrow> t | None \<Rightarrow> created_at key)
            > timedelta_days rotation_days)
   \<and> ((\<exists>e. should_rotate_key L now key rotation_days = Inl e) \<longleftrightarrow>
      is_active key \<and> \<not> is_revoked key
      \<and> (999999999 < \<bar>rotation_days\<bar>
           \<or> now - timedelta_days rotation_days < datetime_min
           \<or> datetime_max < now - timedelta_days rotation_days))
   \<and> (\<forall>e. should_rotate_key L now key rotation_days = Inl e \<longrightarrow> exn_class e = ''OverflowError'')"
proof (cases "is_revoked key \<or> \<not> is_active key")
  case True
  from should_rotate_key_skips [OF True] True show ?thesis by auto
next
  case False
  then have a: "\<not> is_revoked key" "is_active key" by simp_all
  show ?thesis unfolding should_rotate_key_computes [OF a] using a by auto
qed

theorem should_rotate_key_strict_witness:
  "should_rotate_key demo_lib (timedelta_days 90 + 1) demo_key 90 = Inr True
   \<and> should_rotate_key demo_lib (timedelta_days 90) demo_key 90 = Inr False
   \<and> should_rotate_key demo_lib (timedelta_days 90) demo_key 1000000
        = Inl (Exn ''OverflowError'' ''date value out of range'')
   \<and> exn_class (Exn ''OverflowError'' ''date value out of range'') = ''OverflowError''
   \<and> (\<exists>e. should_rotate_key demo_lib (timedelta_days 90) demo_key 1000000000 = Inl e)
   \<and> should_rotate_key demo_lib (timedelta_days 90) demo_revoked_key 1000000000 = Inr False"
proof -
  note k = demo_key_fields(2,3)
  have a: "should_rotate_key demo_lib (timedelta_days 90 + 1) demo_key 90 = Inr True"
    unfolding should_rotate_key_strict [THEN conjunct1]
    by (simp add: demo_key_fields demo_times)
  have b: "should_rotate_key demo_lib (timedelta_days 90) demo_key 90 = Inr False"
    unfolding should_rotate_key_computes [OF k] by (simp add: demo_key_fields demo_times)
  have c: "should_rotate_key demo_lib (timedelta_days 90) demo_key 1000000
        = Inl (Exn ''OverflowError'' ''date value out of range'')"
    unfolding should_rotate_key_computes [OF k] by (simp add: demo_times timedelta_days_def)
  note c' = should_rotate_key_strict [THEN conjunct2, THEN conjunct2, rule_format, OF c]
  have d: "\<exists>e. should_rotate_key demo_lib (timedelta_days 90) demo_key 1000000000 = Inl e"
    unfolding should_rotate_key_strict [THEN conjunct2, THEN conjunct1]
    by (simp add: demo_key_fields)
  have e: "should_rotate_key demo_lib (timedelta_days 90) demo_revoked_key 1000000000 = Inr False"
    by (rule should_rotate_key_skips) (simp add: demo_revoked_key_fields)
  show ?thesis by (intro conjI a b c c' d e)
qed

text \<open>
  C6 as stated fails: an active record whose age is exactly the maximum age is not due.
\<close>

theorem should_rotate_key_at_threshold:
  "is_active demo_key \<and> \<not> is_revoked demo_key \<and> rotated_at demo_key = None
   \<and> timedelta_days 90 - created_at demo_key \<ge> timedelta_days 90
   \<and> should_rotate_key demo_lib (timedelta_days 90) demo_key 90 = Inr False"
proof -
  have "should_rotate_key demo_lib (timedelta_days 90) demo_key 90 = Inr False"
    unfolding should_rotate_key_computes [OF demo_key_fields(2,3)]
    by (simp add: demo_key_fields demo_times)
  then show ?thesis by (simp add: demo_key_fields)
qed

section \<open>Audit records\<close>

text \<open>
  C7. \<^verbatim>\<open>log_audit\<close> stores the record with the signature that is the hexadecimal form
  of the HMAC-SHA256, under the audit secret, of the canonical encoding of the record:
  the nine fields in the alphabetical order of their names, with \<open>,\<close> and \<open>:\<close> as
  the only separators. \<^verbatim>\<open>verify_audit_log\<close> returns true on that record, for every value
  of every field. On any stored record with a timestamp and an ASCII signature it
  returns whether the stored signature equals the signature computed in the same way
  from the stored fields. The hexadecimal form has two digits of \<open>0123456789abcdef\<close>
  for each byte, and different byte strings have different forms.
\<close>

theorem audit_sign_then_verify:
  "audit_logs (log_audit L cfg d uid act rtype rid ip st det ua now)
     = audit_logs d @
       [\<lparr>user_id = uid, action = Some act, resource_type = Some rtype, resource_id = rid,
         ip_address = Some ip, user_agent = ua, status = Some st, details = det,
         hmac_signature = Some (hex_of_bytes (hmac_digest L sha256 (AUDIT_SECRET cfg)
            (spec_canonical_encoding L uid (Some act) (Some rtype) rid (Some ip) (Some st) det ua now))),
         timestamp = Some now\<rparr>]
   \<and> verify_audit_log L cfg (last (audit_logs (log_audit L cfg d uid act rtype rid ip st det ua now)))
       = Inr True
   \<and> (timestamp log = Some t \<and> hmac_signature log = Some s \<and> is_ascii s \<longrightarrow>
        verify_audit_log L cfg log
          = Inr (s = hex_of_bytes (hmac_digest L sha256 (AUDIT_SECRET cfg)
                   (spec_canonical_encoding L (user_id log) (action log) (resource_type log)
                      (resource_id log) (ip_address log) (status log) (details log)
                      (user_agent log) t))))
   \<and> length (hex_of_bytes bs) = 2 * length bs
   \<and> set (hex_of_bytes bs) \<subseteq> set ''0123456789abcdef''
   \<and> (hex_of_bytes bs = hex_of_bytes bs' \<longrightarrow> bs = bs')"
proof (intro conjI impI)
  show "verify_audit_log L cfg (last (audit_logs (log_audit L cfg d uid act rtype rid ip st det ua now)))
       = Inr True"
    unfolding log_audit_row last_snoc
    by (subst verify_audit_log_stored [where t = now]) (simp_all add: is_ascii_hex_of_bytes)
next
  assume "timestamp log = Some t \<and> hmac_signature log = Some s \<and> is_ascii s"
  then have a: "timestamp log = Some t" "hmac_signature log = Some s" "is_ascii s" by simp_all
  show "verify_audit_log L cfg log
          = Inr (s = hex_of_bytes (hmac_digest L sha256 (AUDIT_SECRET cfg)
                   (spec_canonical_encoding L (user_id log) (action log) (resource_type log)
                      (resource_id log) (ip_address log) (status log) (details log)
                      (user_agent log) t)))"
    by (rule verify_audit_log_stored [OF a])
next
  assume "hex_of_bytes bs = hex_of_bytes bs'"
  then show "bs = bs'" by (rule hex_of_bytes_inj)
qed (rule log_audit_row length_hex_of_bytes set_hex_of_bytes)+

theorem audit_sign_then_verify_witness:
  "timestamp demo_log = Some 200
   \<and> hmac_signature demo_log
        = Some ''6464646464646464646464646464646464646464646464646464646464646464''
   \<and> is_ascii ''6464646464646464646464646464646464646464646464646464646464646464''
   \<and> spec_canonical_encoding demo_lib (user_id demo_log) (action demo_log) (resource_type demo_log)
          (resource_id demo_log) (ip_address demo_log) (status demo_log) (details demo_log)
          (user_agent demo_log) 200
        = ''{<action>:<revoke_key>,<details>:null,<ip_address>:<127.0.0.1>,<resource_id>:<7>,<resource_type>:<key>,<status>:<success>,<timestamp>:<200>,<user_agent>:null,<user_id>:1}''
   \<and> verify_audit_log demo_lib demo_cfg demo_log = Inr True
   \<and> hmac_signature (demo_log\<lparr>hmac_signature := Some ''00''\<rparr>) = Some ''00''
   \<and> is_ascii ''00''
   \<and> verify_audit_log demo_lib demo_cfg (demo_log\<lparr>hmac_signature := Some ''00''\<rparr>) = Inr False
   \<and> audit_logs (log_audit demo_lib demo_cfg (demo_db demo_key) (Some 1) ''revoke_key'' ''key''
                    (Some ''7'') ''127.0.0.1'' ''success'' None None 200)
        = [demo_log]
   \<and> hex_of_bytes ''d'' = ''64''
   \<and> length (hex_of_bytes ''d'') = 2 * length ''d''"
proof -
  note f = demo_log_fields
  have c: "spec_canonical_encoding demo_lib (user_id demo_log) (action demo_log)
          (resource_type demo_log) (resource_id demo_log) (ip_address demo_log) (status demo_log)
          (details demo_log) (user_agent demo_log) 200
        = ''{<action>:<revoke_key>,<details>:null,<ip_address>:<127.0.0.1>,<resource_id>:<7>,<resource_type>:<key>,<status>:<success>,<timestamp>:<200>,<user_agent>:null,<user_id>:1}''"
    unfolding f by (rule demo_canonical)
  note t = audit_sign_then_verify [where L = demo_lib and cfg = demo_cfg,
      THEN conjunct2, THEN conjunct2, THEN conjunct1, rule_format]
  have v: "verify_audit_log demo_lib demo_cfg demo_log = Inr True"
    unfolding t [OF conjI [OF f(1) conjI [OF f(2) demo_ascii(1)]]] demo_hex by simp
  have f2: "timestamp (demo_log\<lparr>hmac_signature := Some ''00''\<rparr>) = Some 200"
    "hmac_signature (demo_log\<lparr>hmac_signature := Some ''00''\<rparr>) = Some ''00''"
    by (simp_all add: f)
  have w: "verify_audit_log demo_lib demo_cfg (demo_log\<lparr>hmac_signature := Some ''00''\<rparr>) = Inr False"
    unfolding t [OF conjI [OF f2(1) conjI [OF f2(2) demo_ascii(2)]]] demo_hex by simp
  have l: "audit_logs (log_audit demo_lib demo_cfg (demo_db demo_key) (Some 1) ''revoke_key'' ''key''
                    (Some ''7'') ''127.0.0.1'' ''success'' None None 200)
        = [demo_log]"
    unfolding audit_sign_then_verify [THEN conjunct1] demo_hex
    by (simp add: demo_db_def demo_log_def)
  have x: "hex_of_bytes ''d'' = ''64''" by code_simp
  note y = audit_sign_then_verify [where bs = "''d''", THEN conjunct2, THEN conjunct2,
      THEN conjunct2, THEN conjunct1]
  show ?thesis by (intro conjI f(1) f(2) demo_ascii c v f2(2) w l x y)
qed

section \<open>Start-up\<close>

text \<open>
  C9, as amended. Start-up fails with a \<^verbatim>\<open>ValueError\<close> when \<^verbatim>\<open>MASTER_KEY\<close> is missing
  or empty and when the master key, decoded, has fewer than 32 bytes; so a configuration
  that start-up returns holds a master key of at least 32 bytes. A missing
  \<^verbatim>\<open>AUDIT_SECRET\<close> is not an error: the built-in default is used.
\<close>

theorem startup_checks:
  "(environ ''MASTER_KEY'' = None \<or> environ ''MASTER_KEY'' = Some [] \<longrightarrow>
      startup environ = Inl (ValueError ''MASTER_KEY environment variable must be set''))
   \<and> (\<forall>s. environ ''MASTER_KEY'' = Some s \<and> s \<noteq> []
          \<and> length (case bytes_fromhex s of Some b \<Rightarrow> b | None \<Rightarrow> take 32 s) < 32 \<longrightarrow>
      startup environ = Inl (ValueError ''MASTER_KEY must be at least 32 bytes''))
   \<and> (\<forall>cfg. startup environ = Inr cfg \<longrightarrow>
          32 \<le> length (MASTER_KEY cfg)
          \<and> (environ ''AUDIT_SECRET'' = None \<longrightarrow> AUDIT_SECRET cfg = ''audit-secret-key-change-this''))"
proof (intro conjI allI impI)
  assume "environ ''MASTER_KEY'' = None \<or> environ ''MASTER_KEY'' = Some []"
  then show "startup environ = Inl (ValueError ''MASTER_KEY environment variable must be set'')"
    by (auto simp: startup_def load_master_key_def)
next
  fix s
  assume "environ ''MASTER_KEY'' = Some s \<and> s \<noteq> []
          \<and> length (case bytes_fromhex s of Some b \<Rightarrow> b | None \<Rightarrow> take 32 s) < 32"
  then show "startup environ = Inl (ValueError ''MASTER_KEY must be at least 32 bytes'')"
    by (simp add: startup_def load_master_key_def Let_def)
next
  fix cfg
  assume s: "startup environ = Inr cfg"
  then obtain key where k: "load_master_key (environ ''MASTER_KEY'') = Inr key"
    and c: "cfg = \<lparr>MASTER_KEY = key, AUDIT_SECRET = load_audit_secret (environ ''AUDIT_SECRET'')\<rparr>"
    by (auto simp: startup_def split: sum.splits)
  from load_master_key_length [OF k] c show "32 \<le> length (MASTER_KEY cfg)" by simp
  assume "environ ''AUDIT_SECRET'' = None"
  with c show "AUDIT_SECRET cfg = ''audit-secret-key-change-this''"
    by (simp add: load_audit_secret_def)
qed

theorem startup_checks_witness:
  "Map.empty ''MASTER_KEY'' = (None :: string option)
   \<and> startup Map.empty = Inl (ValueError ''MASTER_KEY environment variable must be set'')
   \<and> startup [''MASTER_KEY'' \<mapsto> ''00112233445566778899aabbccddeeff'']
       = Inl (ValueError ''MASTER_KEY must be at least 32 bytes'')
   \<and> startup [''MASTER_KEY'' \<mapsto> ''0000000000000000000000000000000000000000000000000000000000000000'']
       = Inr \<lparr>MASTER_KEY = replicate 32 (CHR 0x00),
              AUDIT_SECRET = ''audit-secret-key-change-this''\<rparr>
   \<and> 32 \<le> length (MASTER_KEY \<lparr>MASTER_KEY = replicate 32 (CHR 0x00),
                                    AUDIT_SECRET = ''audit-secret-key-change-this''\<rparr>)"
proof -
  note c = startup_checks [of "[''MASTER_KEY'' \<mapsto> ''0000000000000000000000000000000000000000000000000000000000000000'']",
      THEN conjunct2, THEN conjunct2, rule_format, OF startup_hex_zeros, THEN conjunct1]
  have e: "(Map.empty :: string \<rightharpoonup> string) ''MASTER_KEY'' = None" by simp
  have h: "bytes_fromhex ''00112233445566778899aabbccddeeff''
     = Some [CHR 0x00, CHR 0x11, CHR 0x22, CHR 0x33, CHR 0x44, CHR 0x55, CHR 0x66, CHR 0x77,
             CHR 0x88, CHR 0x99, CHR 0xAA, CHR 0xBB, CHR 0xCC, CHR 0xDD, CHR 0xEE, CHR 0xFF]"
    by code_simp
  have s: "[''MASTER_KEY'' \<mapsto> ''00112233445566778899aabbccddeeff''] ''MASTER_KEY''
             = Some ''00112233445566778899aabbccddeeff'' \<and> ''00112233445566778899aabbccddeeff'' \<noteq> []
         \<and> length (case bytes_fromhex ''00112233445566778899aabbccddeeff'' of Some b \<Rightarrow> b
                    | None \<Rightarrow> take 32 ''00112233445566778899aabbccddeeff'') < 32"
    unfolding h by simp
  note a = startup_checks [of Map.empty, THEN conjunct1, rule_format, OF disjI1 [OF e]]
  note b = startup_checks [of "[''MASTER_KEY'' \<mapsto> ''00112233445566778899aabbccddeeff'']",
      THEN conjunct2, THEN conjunct1, rule_format, OF s]
  show ?thesis by (intro conjI e a b startup_hex_zeros c)
qed

text \<open>
  C9 as stated fails: with a valid master key and no \<^verbatim>\<open>AUDIT_SECRET\<close>, start-up
  succeeds and the audit secret is the built-in default.
\<close>

theorem startup_without_audit_secret:
  "[''MASTER_KEY'' \<mapsto> ''0000000000000000000000000000000000000000000000000000000000000000'']
     ''AUDIT_SECRET'' = None
   \<and> startup [''MASTER_KEY'' \<mapsto> ''0000000000000000000000000000000000000000000000000000000000000000'']
     = Inr \<lparr>MASTER_KEY = replicate 32 (CHR 0x00), AUDIT_SECRET = ''audit-secret-key-change-this''\<rparr>"
proof -
  have "[''MASTER_KEY'' \<mapsto> ''0000000000000000000000000000000000000000000000000000000000000000'']
     ''AUDIT_SECRET'' = None"
    by simp
  then show ?thesis by (intro conjI startup_hex_zeros)
qed

end
